theory Spec2Isabelle
  imports Complex_Main
begin

section \<open>VibeStudio: theme documents, apply engine, codec, store and scheduler\<close>

text \<open>
  A shallow embedding of \<^verbatim>\<open>src/ThemeManager.ts\<close>, \<^verbatim>\<open>src/ExportManager.ts\<close> and
  \<^verbatim>\<open>src/AutoSwitcher.ts\<close>. The host's configuration store is a function from setting
  keys to values, every \<^verbatim>\<open>config.update\<close> call is one entry of an update trace, the
  extension's global state is a record, and wall-clock reads
  (\<^verbatim>\<open>new Date()\<close>) are parameters.
\<close>

subsection \<open>JavaScript numbers\<close>

text \<open>
  A finite IEEE 754 binary64 number is \<open>significand * 2 ^ exponent\<close> with integers
  \<open>significand\<close> and \<open>exponent\<close>; \<open>val\<close> is the real number it denotes. Several pairs denote
  the same number (\<open>25 * 2 ^ -1\<close> and \<open>50 * 2 ^ -2\<close> are both 12.5); the operations below do
  not tell them apart. The result of an arithmetic operation is the exact result rounded to
  53 significant bits, ties going to the even significand (\<open>round53\<close>). That is the binary64
  result whenever it is a normal number; a result too large for binary64 is recognised by
  \<open>overflows\<close>. \<^verbatim>\<open>Math.round\<close> is \<open>\<lfloor>x + 1/2\<rfloor>\<close>, computed exactly.
\<close>

datatype JSNumber = JSNumber (significand: int) (exponent: int)

definition val :: "JSNumber \<Rightarrow> real" where
  "val x = real_of_int (significand x) * 2 powi exponent x"

definition positive :: "JSNumber \<Rightarrow> bool" where
  \<comment> \<open>the comparison \<^verbatim>\<open>x > 0\<close>\<close>
  "positive x = (0 < significand x)"

function bit_length :: "int \<Rightarrow> nat" where
  "bit_length n = (if n \<le> 0 then 0 else Suc (bit_length (n div 2)))"
  by pat_completeness auto
termination
  by (relation "measure nat") auto

declare bit_length.simps [simp del]

definition round_ties_even :: "int \<Rightarrow> nat \<Rightarrow> int" where
  \<comment> \<open>\<open>p / 2 ^ k\<close> rounded to the nearest integer, a tie going to the even neighbour\<close>
  "round_ties_even p k =
     (let q = p div 2 ^ k; r = p mod 2 ^ k
      in if 2 * r < 2 ^ k then q
         else if 2 * r > 2 ^ k then q + 1
         else if even q then q else q + 1)"

definition round53 :: "JSNumber \<Rightarrow> JSNumber" where
  \<comment> \<open>the nearest number with a significand of at most 53 bits; rounding is symmetric in
      the sign, and nothing is rounded when the significand has at most 53 bits\<close>
  "round53 x =
     (let m = significand x; k = bit_length \<bar>m\<bar> - 53
      in JSNumber (sgn m * round_ties_even \<bar>m\<bar> k) (exponent x + int k))"

definition minus64 :: "JSNumber \<Rightarrow> JSNumber \<Rightarrow> JSNumber" where
  \<comment> \<open>\<^verbatim>\<open>a - b\<close>: the exact difference, on the smaller of the two exponents, rounded\<close>
  "minus64 a b =
     (let e = min (exponent a) (exponent b)
      in round53 (JSNumber (significand a * 2 ^ nat (exponent a - e)
                            - significand b * 2 ^ nat (exponent b - e)) e))"

definition times64 :: "JSNumber \<Rightarrow> JSNumber \<Rightarrow> JSNumber" where
  \<comment> \<open>\<^verbatim>\<open>a * b\<close>: the exact product, rounded\<close>
  "times64 a b =
     round53 (JSNumber (significand a * significand b) (exponent a + exponent b))"

definition overflows :: "JSNumber \<Rightarrow> bool" where
  \<comment> \<open>the rounded result is \<open>2 ^ 1024\<close> or more in magnitude: binary64 has \<^verbatim>\<open>Infinity\<close> there\<close>
  "overflows x =
     (significand x \<noteq> 0 \<and> int (bit_length \<bar>significand x\<bar>) + exponent x > 1024)"

definition math_round :: "JSNumber \<Rightarrow> int" where
  \<comment> \<open>\<^verbatim>\<open>Math.round\<close>: the nearest integer, a tie going up\<close>
  "math_round x =
     (if 0 \<le> exponent x then significand x * 2 ^ nat (exponent x)
      else (significand x + 2 ^ nat (- exponent x - 1)) div 2 ^ nat (- exponent x))"

subsection \<open>Theme documents (\<^verbatim>\<open>types.ts\<close>, interface \<^verbatim>\<open>TerminalTheme\<close>)\<close>

text \<open>
  One record per nested object of the interface. Record fields share one name space, so a
  field \<^verbatim>\<open>theme.editorTheme.sideBar.background\<close> is \<open>sideBar_background\<close> of the record
  \<open>SideBar\<close>; the fields of \<^verbatim>\<open>colors.tab\<close> carry the prefix \<open>termTab\<close>, those of
  \<^verbatim>\<open>editorTheme.tab\<close> the prefix \<open>tab\<close>. A colour is a string. Numbers that are only
  copied are reals; \<^verbatim>\<open>effects.transparency\<close>, the one number the code computes with, is
  a \<open>JSNumber\<close> (the interface declares a \<^verbatim>\<open>number\<close>, with the comment 0-100). An optional member
  (\<^verbatim>\<open>?:\<close>) is an \<open>option\<close>, \<open>None\<close> standing for \<^verbatim>\<open>undefined\<close>.
\<close>

datatype FontWeight =
  WNormal | WBold | W100 | W200 | W300 | W400 | W500 | W600 | W700 | W800 | W900

datatype CursorStyle = Block | Line | Underline

record Font =
  font_family :: string
  font_size :: real
  font_weight :: FontWeight
  font_ligatures :: bool
  font_lineHeight :: real

record Cursor =
  cursor_style :: CursorStyle
  cursor_blinking :: bool
  cursor_color :: string

record TermTab =
  termTab_activeForeground :: string
  termTab_activeBackground :: string
  termTab_inactiveForeground :: string
  termTab_inactiveBackground :: string
  termTab_border :: string

record Colors =
  background :: string
  foreground :: string
  selection :: string
  selectionBackground :: string
  ansiBlack :: string
  ansiRed :: string
  ansiGreen :: string
  ansiYellow :: string
  ansiBlue :: string
  ansiMagenta :: string
  ansiCyan :: string
  ansiWhite :: string
  ansiBrightBlack :: string
  ansiBrightRed :: string
  ansiBrightGreen :: string
  ansiBrightYellow :: string
  ansiBrightBlue :: string
  ansiBrightMagenta :: string
  ansiBrightCyan :: string
  ansiBrightWhite :: string
  border :: string
  tab :: TermTab

record EditorCore =
  editor_background :: string
  editor_foreground :: string
  editor_selectionBackground :: string
  editor_selectionForeground :: "string option"
  editor_lineHighlightBackground :: string
  editor_cursorColor :: string
  editor_indentGuideBackground :: string
  editor_indentGuideActiveBackground :: string

record ActivityBar =
  activityBar_background :: string
  activityBar_foreground :: string
  activityBar_inactiveForeground :: string
  activityBar_border :: string
  activityBar_activeBorder :: string
  activityBar_activeBackground :: string

record SideBar =
  sideBar_background :: string
  sideBar_foreground :: string
  sideBar_border :: string

record SideBarSectionHeader =
  sideBarSectionHeader_background :: string
  sideBarSectionHeader_foreground :: string
  sideBarSectionHeader_border :: string

record StatusBar =
  statusBar_background :: string
  statusBar_foreground :: string
  statusBar_border :: string
  statusBar_debuggingBackground :: string
  statusBar_debuggingForeground :: string
  statusBar_noFolderBackground :: string
  statusBar_noFolderForeground :: string

record TitleBar =
  titleBar_activeBackground :: string
  titleBar_activeForeground :: string
  titleBar_inactiveBackground :: string
  titleBar_inactiveForeground :: string
  titleBar_border :: string

record Panel =
  panel_background :: string
  panel_border :: string
  panel_dropBorder :: string

text \<open>
  \<^verbatim>\<open>applyTheme\<close> reads \<^verbatim>\<open>editorTheme.panelTitle?.background\<close> and three more members
  of \<^verbatim>\<open>panelTitle\<close> (lines 370-373); the record holds the four members it reads.
\<close>

record PanelTitle =
  panelTitle_background :: string
  panelTitle_activeForeground :: string
  panelTitle_activeBorder :: string
  panelTitle_inactiveForeground :: string

record EditorTab =
  tab_activeBackground :: string
  tab_activeForeground :: string
  tab_activeBorder :: string
  tab_activeBorderTop :: string
  tab_inactiveBackground :: string
  tab_inactiveForeground :: string
  tab_inactiveModifiedBorder :: string
  tab_unfocusedActiveBackground :: string
  tab_unfocusedActiveForeground :: string
  tab_unfocusedInactiveBackground :: string
  tab_unfocusedInactiveForeground :: string
  tab_border :: string

record Input =
  input_background :: string
  input_foreground :: string
  input_border :: string
  input_placeholderForeground :: string

record Dropdown =
  dropdown_background :: string
  dropdown_foreground :: string
  dropdown_border :: string

record Button =
  button_background :: string
  button_foreground :: string
  button_hoverBackground :: string
  button_secondaryBackground :: string
  button_secondaryForeground :: string
  button_secondaryHoverBackground :: string

record Checkbox =
  checkbox_background :: string
  checkbox_foreground :: string
  checkbox_border :: string

record Badge =
  badge_background :: string
  badge_foreground :: string

record ProgressBar =
  progressBar_background :: string

record ListTree =
  list_activeSelectionBackground :: string
  list_activeSelectionForeground :: string
  list_inactiveSelectionBackground :: string
  list_inactiveSelectionForeground :: string
  list_hoverBackground :: string
  list_hoverForeground :: string
  list_focusBackground :: string
  list_focusForeground :: string

record Scrollbar =
  scrollbar_shadow :: string

record SyntaxColors =
  syntax_comment :: string
  syntax_keyword :: string
  syntax_string :: string
  syntax_number :: string
  syntax_function :: string
  syntax_variable :: string
  syntax_type :: string
  syntax_class :: string
  syntax_interface :: string
  syntax_namespace :: string
  syntax_operator :: string
  syntax_punctuation :: string
  syntax_constant :: string
  syntax_property :: string
  syntax_tag :: string
  syntax_attribute :: string

record EditorTheme =
  editor :: EditorCore
  activityBar :: ActivityBar
  sideBar :: SideBar
  sideBarSectionHeader :: "SideBarSectionHeader option"
  statusBar :: StatusBar
  titleBar :: TitleBar
  panel :: Panel
  panelTitle :: "PanelTitle option"
  editorTab :: EditorTab
  input :: Input
  dropdown :: Dropdown
  button :: Button
  checkbox :: Checkbox
  badge :: Badge
  progressBar :: ProgressBar
  listTree :: ListTree
  scrollbar :: Scrollbar
  syntaxColors :: SyntaxColors

record Integration =
  applyToEditor :: bool
  applyToTerminal :: bool
  applyToWorkbench :: bool
  customCss :: "string option"

record Effects =
  transparency :: JSNumber
  blur :: real
  animations :: bool
  particleEffects :: bool
  glowEffect :: bool
  scanlines :: bool
  crtEffect :: bool

record TerminalTheme =
  name :: string
  version :: string
  author :: "string option"
  description :: "string option"
  created :: string
  modified :: string
  font :: Font
  cursor :: Cursor
  colors :: Colors
  editorTheme :: "EditorTheme option"
  integration :: Integration
  effects :: Effects

subsection \<open>The arithmetic of \<^verbatim>\<open>applyCustomEffects\<close>\<close>

text \<open>
  Line 559 computes \<^verbatim>\<open>Math.round((100 - transparency) * 2.55).toString(16).padStart(2, "0")\<close>
  on binary64 numbers. The literal \<^verbatim>\<open>2.55\<close> denotes the binary64 number
  \<open>5742089524897382 * 2 ^ -51\<close>, just below 2.55. The difference and the product are each
  rounded; a difference \<open>100 - t\<close> is zero or at least \<open>2 ^ -46\<close> in magnitude, so neither
  result is subnormal. When the product overflows, \<^verbatim>\<open>Math.round\<close> returns the infinity and
  \<^verbatim>\<open>toString(16)\<close> prints its name, which \<^verbatim>\<open>padStart\<close> leaves as it is.
\<close>

definition dbl_2_55 :: JSNumber where
  "dbl_2_55 = JSNumber 5742089524897382 (- 51)"

definition alphaProduct :: "JSNumber \<Rightarrow> JSNumber" where
  \<comment> \<open>\<^verbatim>\<open>(100 - transparency) * 2.55\<close>\<close>
  "alphaProduct t = times64 (minus64 (JSNumber 100 0) t) dbl_2_55"

definition alphaValue :: "JSNumber \<Rightarrow> int" where
  "alphaValue t = math_round (alphaProduct t)"

definition hexDigit :: "nat \<Rightarrow> char" where
  "hexDigit d = ''0123456789abcdef'' ! (d mod 16)"

fun hexDigits :: "nat \<Rightarrow> string" where
  "hexDigits n = (if n < 16 then [hexDigit n] else hexDigits (n div 16) @ [hexDigit n])"

declare hexDigits.simps [simp del]

definition toString16 :: "int \<Rightarrow> string" where
  \<comment> \<open>\<^verbatim>\<open>Number.prototype.toString(16)\<close> of an integer\<close>
  "toString16 i = (if i < 0 then CHR ''-'' # hexDigits (nat (- i)) else hexDigits (nat i))"

definition padStart :: "nat \<Rightarrow> char \<Rightarrow> string \<Rightarrow> string" where
  "padStart w c s = replicate (w - length s) c @ s"

definition alphaSuffix :: "JSNumber \<Rightarrow> string" where
  "alphaSuffix t =
     (let p = alphaProduct t
      in if overflows p then (if significand p < 0 then ''-Infinity'' else ''Infinity'')
         else padStart 2 (CHR ''0'') (toString16 (math_round p)))"

subsection \<open>The host's configuration store\<close>

text \<open>
  \<^verbatim>\<open>workbench.colorCustomizations\<close> is an object from colour keys to colours. A key that
  \<^verbatim>\<open>Object.assign\<close> sets to \<^verbatim>\<open>undefined\<close> is present with the value \<open>None\<close>.
\<close>

type_synonym ColorMap = "string \<rightharpoonup> string option"

record TextMateRule =
  rule_scope :: "string list"
  rule_foreground :: string

record TokenColorCustomizations =
  token_comments :: string
  token_keywords :: string
  token_strings :: string
  token_numbers :: string
  token_functions :: string
  token_variables :: string
  token_types :: string
  token_textMateRules :: "TextMateRule list"

datatype ConfigValue =
    VUndefined
  | VString string
  | VNumber real
  | VBool bool
  | VWeight FontWeight
  | VCursorStyle CursorStyle
  | VColors ColorMap
  | VTokens TokenColorCustomizations

type_synonym ConfigStore = "string \<Rightarrow> ConfigValue"

type_synonym ConfigUpdate = "string \<times> ConfigValue"

definition config_update :: "ConfigStore \<Rightarrow> ConfigUpdate \<Rightarrow> ConfigStore" where
  \<comment> \<open>\<^verbatim>\<open>config.update(key, value, Global)\<close>; the value \<^verbatim>\<open>undefined\<close> unsets the key\<close>
  "config_update cfg u = cfg(fst u := snd u)"

definition run_updates :: "ConfigStore \<Rightarrow> ConfigUpdate list \<Rightarrow> ConfigStore" where
  "run_updates cfg us = foldl config_update cfg us"

definition truthy :: "ConfigValue \<Rightarrow> bool" where
  "truthy v = (case v of VUndefined \<Rightarrow> False | VString s \<Rightarrow> s \<noteq> [] | VNumber x \<Rightarrow> x \<noteq> 0
                | VBool b \<Rightarrow> b | _ \<Rightarrow> True)"

definition config_get :: "ConfigStore \<Rightarrow> string \<Rightarrow> ConfigValue \<Rightarrow> ConfigValue" where
  \<comment> \<open>\<^verbatim>\<open>config.get(key, defaultValue)\<close>\<close>
  "config_get cfg k dflt = (if cfg k = VUndefined then dflt else cfg k)"

definition getColorCustomizations :: "ConfigStore \<Rightarrow> ColorMap" where
  \<comment> \<open>\<^verbatim>\<open>config.get("workbench.colorCustomizations", {})\<close>\<close>
  "getColorCustomizations cfg =
     (case cfg ''workbench.colorCustomizations'' of VColors m \<Rightarrow> m | _ \<Rightarrow> Map.empty)"

definition object_assign :: "ColorMap \<Rightarrow> (string \<times> string option) list \<Rightarrow> ColorMap" where
  \<comment> \<open>\<^verbatim>\<open>Object.assign(target, source)\<close>: the source's members in order, each overwriting\<close>
  "object_assign target source = foldl (\<lambda>m (k, v). m(k \<mapsto> v)) target source"

subsection \<open>\<^verbatim>\<open>ThemeManager.applyTheme\<close> (lines 288-547)\<close>

definition terminalColors :: "TerminalTheme \<Rightarrow> (string \<times> string option) list" where
  \<comment> \<open>lines 312-335\<close>
  "terminalColors theme =
    [(''terminal.background'', Some (background (colors theme))),
     (''terminal.foreground'', Some (foreground (colors theme))),
     (''terminal.selectionBackground'', Some (selectionBackground (colors theme))),
     (''terminal.ansiBlack'', Some (ansiBlack (colors theme))),
     (''terminal.ansiRed'', Some (ansiRed (colors theme))),
     (''terminal.ansiGreen'', Some (ansiGreen (colors theme))),
     (''terminal.ansiYellow'', Some (ansiYellow (colors theme))),
     (''terminal.ansiBlue'', Some (ansiBlue (colors theme))),
     (''terminal.ansiMagenta'', Some (ansiMagenta (colors theme))),
     (''terminal.ansiCyan'', Some (ansiCyan (colors theme))),
     (''terminal.ansiWhite'', Some (ansiWhite (colors theme))),
     (''terminal.ansiBrightBlack'', Some (ansiBrightBlack (colors theme))),
     (''terminal.ansiBrightRed'', Some (ansiBrightRed (colors theme))),
     (''terminal.ansiBrightGreen'', Some (ansiBrightGreen (colors theme))),
     (''terminal.ansiBrightYellow'', Some (ansiBrightYellow (colors theme))),
     (''terminal.ansiBrightBlue'', Some (ansiBrightBlue (colors theme))),
     (''terminal.ansiBrightMagenta'', Some (ansiBrightMagenta (colors theme))),
     (''terminal.ansiBrightCyan'', Some (ansiBrightCyan (colors theme))),
     (''terminal.ansiBrightWhite'', Some (ansiBrightWhite (colors theme))),
     (''terminal.border'', Some (border (colors theme))),
     (''terminalCursor.foreground'', Some (cursor_color (cursor theme))),
     (''terminalCursor.background'', Some (background (colors theme)))]"

definition editorColors :: "EditorTheme \<Rightarrow> (string \<times> string option) list" where
  \<comment> \<open>lines 340-445\<close>
  "editorColors e =
    [(''editor.background'', Some (editor_background (editor e))),
     (''editor.foreground'', Some (editor_foreground (editor e))),
     (''editor.selectionBackground'', Some (editor_selectionBackground (editor e))),
     (''editor.selectionForeground'', editor_selectionForeground (editor e)),
     (''editor.lineHighlightBackground'', Some (editor_lineHighlightBackground (editor e))),
     (''editorCursor.foreground'', Some (editor_cursorColor (editor e))),
     (''editorIndentGuide.background'', Some (editor_indentGuideBackground (editor e))),
     (''editorIndentGuide.activeBackground'', Some (editor_indentGuideActiveBackground (editor e))),
     (''activityBar.background'', Some (activityBar_background (activityBar e))),
     (''activityBar.foreground'', Some (activityBar_foreground (activityBar e))),
     (''activityBar.inactiveForeground'', Some (activityBar_inactiveForeground (activityBar e))),
     (''activityBar.border'', Some (activityBar_border (activityBar e))),
     (''activityBar.activeBorder'', Some (activityBar_activeBorder (activityBar e))),
     (''activityBar.activeBackground'', Some (activityBar_activeBackground (activityBar e))),
     (''sideBar.background'', Some (sideBar_background (sideBar e))),
     (''sideBar.foreground'', Some (sideBar_foreground (sideBar e))),
     (''sideBar.border'', Some (sideBar_border (sideBar e))),
     (''sideBarSectionHeader.background'',
        map_option sideBarSectionHeader_background (sideBarSectionHeader e)),
     (''sideBarSectionHeader.foreground'',
        map_option sideBarSectionHeader_foreground (sideBarSectionHeader e)),
     (''sideBarSectionHeader.border'',
        map_option sideBarSectionHeader_border (sideBarSectionHeader e)),
     (''panel.background'', map_option panelTitle_background (panelTitle e)),
     (''panelTitle.activeForeground'', map_option panelTitle_activeForeground (panelTitle e)),
     (''panelTitle.activeBorder'', map_option panelTitle_activeBorder (panelTitle e)),
     (''panelTitle.inactiveForeground'', map_option panelTitle_inactiveForeground (panelTitle e)),
     (''statusBar.background'', Some (statusBar_background (statusBar e))),
     (''statusBar.foreground'', Some (statusBar_foreground (statusBar e))),
     (''statusBar.border'', Some (statusBar_border (statusBar e))),
     (''statusBar.debuggingBackground'', Some (statusBar_debuggingBackground (statusBar e))),
     (''statusBar.debuggingForeground'', Some (statusBar_debuggingForeground (statusBar e))),
     (''statusBar.noFolderBackground'', Some (statusBar_noFolderBackground (statusBar e))),
     (''statusBar.noFolderForeground'', Some (statusBar_noFolderForeground (statusBar e))),
     (''titleBar.activeBackground'', Some (titleBar_activeBackground (titleBar e))),
     (''titleBar.activeForeground'', Some (titleBar_activeForeground (titleBar e))),
     (''titleBar.inactiveBackground'', Some (titleBar_inactiveBackground (titleBar e))),
     (''titleBar.inactiveForeground'', Some (titleBar_inactiveForeground (titleBar e))),
     (''titleBar.border'', Some (titleBar_border (titleBar e))),
     (''tab.activeBackground'', Some (tab_activeBackground (editorTab e))),
     (''tab.activeForeground'', Some (tab_activeForeground (editorTab e))),
     (''tab.activeBorder'', Some (tab_activeBorder (editorTab e))),
     (''tab.activeBorderTop'', Some (tab_activeBorderTop (editorTab e))),
     (''tab.inactiveBackground'', Some (tab_inactiveBackground (editorTab e))),
     (''tab.inactiveForeground'', Some (tab_inactiveForeground (editorTab e))),
     (''tab.inactiveModifiedBorder'', Some (tab_inactiveModifiedBorder (editorTab e))),
     (''tab.unfocusedActiveBackground'', Some (tab_unfocusedActiveBackground (editorTab e))),
     (''tab.unfocusedActiveForeground'', Some (tab_unfocusedActiveForeground (editorTab e))),
     (''tab.unfocusedInactiveBackground'', Some (tab_unfocusedInactiveBackground (editorTab e))),
     (''tab.unfocusedInactiveForeground'', Some (tab_unfocusedInactiveForeground (editorTab e))),
     (''tab.border'', Some (tab_border (editorTab e))),
     (''input.background'', Some (input_background (input e))),
     (''input.foreground'', Some (input_foreground (input e))),
     (''input.border'', Some (input_border (input e))),
     (''input.placeholderForeground'', Some (input_placeholderForeground (input e))),
     (''dropdown.background'', Some (dropdown_background (dropdown e))),
     (''dropdown.foreground'', Some (dropdown_foreground (dropdown e))),
     (''dropdown.border'', Some (dropdown_border (dropdown e))),
     (''button.background'', Some (button_background (button e))),
     (''button.foreground'', Some (button_foreground (button e))),
     (''button.hoverBackground'', Some (button_hoverBackground (button e))),
     (''button.secondaryBackground'', Some (button_secondaryBackground (button e))),
     (''button.secondaryForeground'', Some (button_secondaryForeground (button e))),
     (''button.secondaryHoverBackground'', Some (button_secondaryHoverBackground (button e))),
     (''checkbox.background'', Some (checkbox_background (checkbox e))),
     (''checkbox.foreground'', Some (checkbox_foreground (checkbox e))),
     (''checkbox.border'', Some (checkbox_border (checkbox e))),
     (''badge.background'', Some (badge_background (badge e))),
     (''badge.foreground'', Some (badge_foreground (badge e))),
     (''progressBar.background'', Some (progressBar_background (progressBar e))),
     (''list.activeSelectionBackground'', Some (list_activeSelectionBackground (listTree e))),
     (''list.activeSelectionForeground'', Some (list_activeSelectionForeground (listTree e))),
     (''list.inactiveSelectionBackground'', Some (list_inactiveSelectionBackground (listTree e))),
     (''list.inactiveSelectionForeground'', Some (list_inactiveSelectionForeground (listTree e))),
     (''list.hoverBackground'', Some (list_hoverBackground (listTree e))),
     (''list.hoverForeground'', Some (list_hoverForeground (listTree e))),
     (''list.focusBackground'', Some (list_focusBackground (listTree e))),
     (''list.focusForeground'', Some (list_focusForeground (listTree e)))]"

definition tokenColorCustomizations :: "EditorTheme \<Rightarrow> TokenColorCustomizations" where
  \<comment> \<open>lines 450-508; a rule whose scope is one string has a one-element scope list\<close>
  "tokenColorCustomizations e =
    (let s = syntaxColors e in
     \<lparr>token_comments = syntax_comment s,
      token_keywords = syntax_keyword s,
      token_strings = syntax_string s,
      token_numbers = syntax_number s,
      token_functions = syntax_function s,
      token_variables = syntax_variable s,
      token_types = syntax_type s,
      token_textMateRules =
        [\<lparr>rule_scope = [''comment''], rule_foreground = syntax_comment s\<rparr>,
         \<lparr>rule_scope = [''keyword'', ''storage.type'', ''storage.modifier''],
          rule_foreground = syntax_keyword s\<rparr>,
         \<lparr>rule_scope = [''string'', ''string.quoted''], rule_foreground = syntax_string s\<rparr>,
         \<lparr>rule_scope = [''constant.numeric'', ''constant.language''],
          rule_foreground = syntax_number s\<rparr>,
         \<lparr>rule_scope = [''entity.name.function'', ''support.function''],
          rule_foreground = syntax_function s\<rparr>,
         \<lparr>rule_scope = [''variable'', ''variable.other''], rule_foreground = syntax_variable s\<rparr>,
         \<lparr>rule_scope = [''entity.name.type'', ''support.type'', ''storage.type''],
          rule_foreground = syntax_type s\<rparr>,
         \<lparr>rule_scope = [''entity.name.class'', ''support.class''],
          rule_foreground = syntax_class s\<rparr>]\<rparr>)"

definition basicEditorColors :: "TerminalTheme \<Rightarrow> (string \<times> string option) list" where
  \<comment> \<open>lines 513-517\<close>
  "basicEditorColors theme =
    [(''editor.background'', Some (background (colors theme))),
     (''editor.foreground'', Some (foreground (colors theme))),
     (''editor.selectionBackground'', Some (selectionBackground (colors theme)))]"

definition basicWorkbenchColors :: "TerminalTheme \<Rightarrow> (string \<times> string option) list" where
  \<comment> \<open>lines 522-527\<close>
  "basicWorkbenchColors theme =
    [(''sideBar.background'', Some (background (colors theme))),
     (''activityBar.background'', Some (background (colors theme))),
     (''statusBar.background'', Some (background (colors theme))),
     (''titleBar.activeBackground'', Some (background (colors theme)))]"

definition editorIntegration :: "TerminalTheme \<Rightarrow> ColorMap \<Rightarrow> ColorMap" where
  \<comment> \<open>lines 338-518, the colour map part\<close>
  "editorIntegration theme colorCustomizations =
     (if applyToEditor (integration theme) \<and> editorTheme theme \<noteq> None
      then object_assign colorCustomizations (editorColors (the (editorTheme theme)))
      else if applyToEditor (integration theme)
      then object_assign colorCustomizations (basicEditorColors theme)
      else colorCustomizations)"

definition tokenUpdates :: "TerminalTheme \<Rightarrow> ConfigUpdate list" where
  \<comment> \<open>line 510, inside the first branch of lines 338-518\<close>
  "tokenUpdates theme =
     (if applyToEditor (integration theme) \<and> editorTheme theme \<noteq> None
      then [(''editor.tokenColorCustomizations'',
             VTokens (tokenColorCustomizations (the (editorTheme theme))))]
      else [])"

definition workbenchIntegration :: "TerminalTheme \<Rightarrow> ColorMap \<Rightarrow> ColorMap" where
  \<comment> \<open>lines 520-528\<close>
  "workbenchIntegration theme colorCustomizations =
     (if applyToWorkbench (integration theme) \<and> editorTheme theme = None
      then object_assign colorCustomizations (basicWorkbenchColors theme)
      else colorCustomizations)"

definition mergedColorCustomizations :: "TerminalTheme \<Rightarrow> ColorMap \<Rightarrow> ColorMap" where
  \<comment> \<open>the object handed to \<^verbatim>\<open>config.update\<close> at line 533\<close>
  "mergedColorCustomizations theme colorCustomizations =
     object_assign
       (workbenchIntegration theme (editorIntegration theme colorCustomizations))
       (terminalColors theme)"

definition applyTheme_updates :: "TerminalTheme \<Rightarrow> ConfigStore \<Rightarrow> ConfigUpdate list" where
  \<comment> \<open>the \<^verbatim>\<open>config.update\<close> calls of lines 297-538, in order\<close>
  "applyTheme_updates theme cfg =
     [(''workbench.colorTheme'', VUndefined),
      (''terminal.integrated.fontFamily'', VString (font_family (font theme))),
      (''terminal.integrated.fontSize'', VNumber (font_size (font theme))),
      (''terminal.integrated.fontWeight'', VWeight (font_weight (font theme))),
      (''terminal.integrated.lineHeight'', VNumber (font_lineHeight (font theme))),
      (''terminal.integrated.cursorStyle'', VCursorStyle (cursor_style (cursor theme))),
      (''terminal.integrated.cursorBlinking'', VBool (cursor_blinking (cursor theme)))]
     @ tokenUpdates theme
     @ [(''workbench.colorCustomizations'',
         VColors (mergedColorCustomizations theme (getColorCustomizations cfg)))]
     @ (if font_ligatures (font theme) then [(''editor.fontLigatures'', VBool True)] else [])"

definition applyCustomEffects_updates :: "TerminalTheme \<Rightarrow> ConfigStore \<Rightarrow> ConfigUpdate list" where
  \<comment> \<open>\<^verbatim>\<open>applyCustomEffects\<close>, lines 549-566\<close>
  "applyCustomEffects_updates theme cfg =
     (if positive (transparency (effects theme))
      then let colorCustomizations = getColorCustomizations cfg;
               alpha = alphaSuffix (transparency (effects theme))
           in [(''workbench.colorCustomizations'',
                VColors (colorCustomizations
                          (''terminal.background'' \<mapsto> Some (background (colors theme) @ alpha))))]
      else [])"

definition hasCustomCss :: "TerminalTheme \<Rightarrow> bool" where
  \<comment> \<open>the test \<^verbatim>\<open>if (theme.integration.customCss)\<close> of line 541: a non-empty string\<close>
  "hasCustomCss theme =
     (case customCss (integration theme) of None \<Rightarrow> False | Some css \<Rightarrow> css \<noteq> [])"

definition applyTheme_trace :: "TerminalTheme \<Rightarrow> ConfigStore \<Rightarrow> ConfigUpdate list" where
  \<comment> \<open>every \<^verbatim>\<open>config.update\<close> call of one \<^verbatim>\<open>applyTheme\<close>, lines 297-543\<close>
  "applyTheme_trace theme cfg =
     (let us = applyTheme_updates theme cfg
      in us @ (if hasCustomCss theme
               then applyCustomEffects_updates theme (run_updates cfg us)
               else []))"

definition applyTheme_config :: "TerminalTheme \<Rightarrow> ConfigStore \<Rightarrow> ConfigStore" where
  "applyTheme_config theme cfg = run_updates cfg (applyTheme_trace theme cfg)"

text \<open>
  All members that one \<^verbatim>\<open>applyTheme\<close> assigns to the colour map, in the order of the
  assignments: the editor branch, the workbench fallback, the terminal colours, and the
  background with its alpha suffix when \<^verbatim>\<open>applyCustomEffects\<close> runs and the transparency
  is positive.
\<close>

definition colorWrites :: "TerminalTheme \<Rightarrow> (string \<times> string option) list" where
  "colorWrites theme =
     (if applyToEditor (integration theme) \<and> editorTheme theme \<noteq> None
      then editorColors (the (editorTheme theme))
      else if applyToEditor (integration theme) then basicEditorColors theme else [])
     @ (if applyToWorkbench (integration theme) \<and> editorTheme theme = None
        then basicWorkbenchColors theme else [])
     @ terminalColors theme
     @ (if hasCustomCss theme \<and> positive (transparency (effects theme))
        then [(''terminal.background'',
               Some (background (colors theme) @ alphaSuffix (transparency (effects theme))))]
        else [])"

definition terminalColorKeys :: "string list" where
  "terminalColorKeys =
     [''terminal.background'', ''terminal.foreground'', ''terminal.selectionBackground'',
      ''terminal.ansiBlack'', ''terminal.ansiRed'', ''terminal.ansiGreen'',
      ''terminal.ansiYellow'', ''terminal.ansiBlue'', ''terminal.ansiMagenta'',
      ''terminal.ansiCyan'', ''terminal.ansiWhite'', ''terminal.ansiBrightBlack'',
      ''terminal.ansiBrightRed'', ''terminal.ansiBrightGreen'', ''terminal.ansiBrightYellow'',
      ''terminal.ansiBrightBlue'', ''terminal.ansiBrightMagenta'', ''terminal.ansiBrightCyan'',
      ''terminal.ansiBrightWhite'', ''terminal.border'', ''terminalCursor.foreground'',
      ''terminalCursor.background'']"

definition terminalTabKeys :: "string list" where
  \<comment> \<open>the five tab keys that \<^verbatim>\<open>getCurrentTheme\<close> reads (lines 134-138)\<close>
  "terminalTabKeys =
     [''terminal.tab.activeForeground'', ''terminal.tab.activeBackground'',
      ''terminal.tab.inactiveForeground'', ''terminal.tab.inactiveBackground'',
      ''terminal.tab.border'']"

definition startsWith :: "string \<Rightarrow> string \<Rightarrow> bool" where
  \<comment> \<open>\<^verbatim>\<open>key.startsWith(p)\<close>\<close>
  "startsWith k p = (take (length p) k = p)"

definition hasEditorPrefix :: "string \<Rightarrow> bool" where
  \<comment> \<open>the test of \<^verbatim>\<open>getCurrentTheme\<close>, lines 78-86, for an editor or workbench key\<close>
  "hasEditorPrefix k =
     (startsWith k ''editor.'' \<or> startsWith k ''activityBar.'' \<or> startsWith k ''sideBar.'' \<or>
      startsWith k ''statusBar.'' \<or> startsWith k ''titleBar.'' \<or> startsWith k ''tab.'')"

subsection \<open>Extension state: theme store and backup ring\<close>

record ThemeBackup =
  backup_timestamp :: string
  backup_settings :: "(string \<times> ConfigValue) list"
  backup_theme :: "TerminalTheme option"

record ExtensionState =
  configuration :: ConfigStore
  savedThemes :: "TerminalTheme list"
  currentTheme :: "TerminalTheme option"
  backups :: "ThemeBackup list"

fun findIndex :: "('a \<Rightarrow> bool) \<Rightarrow> 'a list \<Rightarrow> int" where
  \<comment> \<open>\<^verbatim>\<open>Array.prototype.findIndex\<close>: the first index that satisfies the test, or -1\<close>
  "findIndex P [] = - 1"
| "findIndex P (x # xs) =
     (if P x then 0 else (let i = findIndex P xs in if i < 0 then - 1 else i + 1))"

definition saveTheme :: "string \<Rightarrow> string \<Rightarrow> TerminalTheme \<Rightarrow> ExtensionState \<Rightarrow> ExtensionState" where
  \<comment> \<open>lines 50-64; \<open>nowModified\<close> and \<open>nowCreated\<close> are the two clock reads of lines 54 and 59\<close>
  "saveTheme nowModified nowCreated theme st =
     (let themes = savedThemes st;
          existingIndex = findIndex (\<lambda>t. name t = name theme) themes;
          theme1 = theme\<lparr>modified := nowModified\<rparr>
      in if existingIndex \<ge> 0
         then st\<lparr>savedThemes := themes[nat existingIndex := theme1]\<rparr>
         else st\<lparr>savedThemes := themes @ [theme1\<lparr>created := nowCreated\<rparr>]\<rparr>)"

definition deleteTheme :: "string \<Rightarrow> ExtensionState \<Rightarrow> ExtensionState" where
  \<comment> \<open>lines 66-70\<close>
  "deleteTheme themeName st =
     st\<lparr>savedThemes := filter (\<lambda>t. name t \<noteq> themeName) (savedThemes st)\<rparr>"

definition backupSettings :: "ConfigStore \<Rightarrow> (string \<times> ConfigValue) list" where
  \<comment> \<open>lines 621-630: the eight settings a backup records\<close>
  "backupSettings cfg =
     map (\<lambda>k. (k, cfg k))
       [''terminal.integrated.fontFamily'', ''terminal.integrated.fontSize'',
        ''terminal.integrated.fontWeight'', ''terminal.integrated.lineHeight'',
        ''terminal.integrated.cursorStyle'', ''terminal.integrated.cursorBlinking'',
        ''workbench.colorTheme'', ''workbench.colorCustomizations'']"

definition createBackup :: "string \<Rightarrow> TerminalTheme option \<Rightarrow> ExtensionState \<Rightarrow> ExtensionState" where
  \<comment> \<open>lines 615-642; \<open>now\<close> is the clock read of line 620 and \<open>current\<close> the document that
      \<^verbatim>\<open>getCurrentTheme()\<close> returned at line 617\<close>
  "createBackup now current st =
     (let backup = \<lparr>backup_timestamp = now,
                    backup_settings = backupSettings (configuration st),
                    backup_theme = current\<rparr>;
          unshifted = backup # backups st
      in st\<lparr>backups := (if length unshifted > 10 then take 10 unshifted else unshifted)\<rparr>)"

definition backupEnabled :: "ConfigStore \<Rightarrow> bool" where
  \<comment> \<open>line 290: \<^verbatim>\<open>getConfiguration("vibestudio").get("backup.enabled", true)\<close>\<close>
  "backupEnabled cfg = truthy (config_get cfg ''vibestudio.backup.enabled'' (VBool True))"

definition applyTheme ::
  "string \<Rightarrow> TerminalTheme option \<Rightarrow> TerminalTheme \<Rightarrow> ExtensionState \<Rightarrow> ExtensionState" where
  \<comment> \<open>lines 288-547: backup, the configuration updates, then the record of the applied theme\<close>
  "applyTheme now current theme st =
     (let st1 = (if backupEnabled (configuration st) then createBackup now current st else st)
      in st1\<lparr>configuration := applyTheme_config theme (configuration st1),
             currentTheme := Some theme\<rparr>)"

definition snapshot :: "string \<Rightarrow> TerminalTheme option \<Rightarrow> ExtensionState \<Rightarrow> ThemeBackup" where
  \<comment> \<open>the backup object of lines 619-632\<close>
  "snapshot now current st =
     \<lparr>backup_timestamp = now,
      backup_settings = backupSettings (configuration st),
      backup_theme = current\<rparr>"

definition createBackups ::
  "(string \<times> TerminalTheme option) list \<Rightarrow> ExtensionState \<Rightarrow> ExtensionState" where
  \<comment> \<open>\<^verbatim>\<open>createBackup\<close> called once per element, first element first\<close>
  "createBackups calls st = foldl (\<lambda>s (now, current). createBackup now current s) st calls"

subsection \<open>Format codec (\<^verbatim>\<open>ExportManager.ts\<close>)\<close>

fun joinLines :: "string list \<Rightarrow> string" where
  "joinLines [] = []"
| "joinLines [l] = l"
| "joinLines (l # ls) = l @ [CHR 0x0A] @ joinLines ls"

definition quoted :: "string \<Rightarrow> string" where
  "quoted s = [CHR 0x27] @ s @ [CHR 0x27]"

definition stringOr :: "string option \<Rightarrow> string \<Rightarrow> string" where
  \<comment> \<open>\<^verbatim>\<open>a || b\<close> on an optional string: \<^verbatim>\<open>undefined\<close> and the empty string are falsy\<close>
  "stringOr a b = (case a of None \<Rightarrow> b | Some s \<Rightarrow> if s = [] then b else s)"

definition exportToAlacritty :: "TerminalTheme \<Rightarrow> string" where
  \<comment> \<open>lines 69-95, the template literal line by line\<close>
  "exportToAlacritty theme =
     (let c = colors theme in
      joinLines
       [''# '' @ name theme @ '' - '' @ stringOr (description theme) ''TermiStyle theme'',
        ''colors:'',
        ''  primary:'',
        ''    background: '' @ quoted (background c),
        ''    foreground: '' @ quoted (foreground c),
        ''  '',
        ''  normal:'',
        ''    black:   '' @ quoted (ansiBlack c),
        ''    red:     '' @ quoted (ansiRed c),
        ''    green:   '' @ quoted (ansiGreen c),
        ''    yellow:  '' @ quoted (ansiYellow c),
        ''    blue:    '' @ quoted (ansiBlue c),
        ''    magenta: '' @ quoted (ansiMagenta c),
        ''    cyan:    '' @ quoted (ansiCyan c),
        ''    white:   '' @ quoted (ansiWhite c),
        ''  '',
        ''  bright:'',
        ''    black:   '' @ quoted (ansiBrightBlack c),
        ''    red:     '' @ quoted (ansiBrightRed c),
        ''    green:   '' @ quoted (ansiBrightGreen c),
        ''    yellow:  '' @ quoted (ansiBrightYellow c),
        ''    blue:    '' @ quoted (ansiBrightBlue c),
        ''    magenta: '' @ quoted (ansiBrightMagenta c),
        ''    cyan:    '' @ quoted (ansiBrightCyan c),
        ''    white:   '' @ quoted (ansiBrightWhite c)])"

text \<open>
  The eighteen terminal colour members that the template prints, in the order of the
  template, and the documents whose name, description and colours stay on their line and
  inside their quotes.
\<close>

definition terminalColorFields :: "TerminalTheme \<Rightarrow> string list" where
  "terminalColorFields theme =
     (let c = colors theme in
      [background c, foreground c,
       ansiBlack c, ansiRed c, ansiGreen c, ansiYellow c,
       ansiBlue c, ansiMagenta c, ansiCyan c, ansiWhite c,
       ansiBrightBlack c, ansiBrightRed c, ansiBrightGreen c, ansiBrightYellow c,
       ansiBrightBlue c, ansiBrightMagenta c, ansiBrightCyan c, ansiBrightWhite c])"

definition plainScalars :: "TerminalTheme \<Rightarrow> bool" where
  "plainScalars theme =
     (CHR 0x0A \<notin> set (name theme)
      \<and> CHR 0x0A \<notin> set (stringOr (description theme) ''TermiStyle theme'')
      \<and> list_all (\<lambda>c. CHR 0x0A \<notin> set c \<and> CHR 0x27 \<notin> set c) (terminalColorFields theme))"

text \<open>
  The program has no reader of this dialect. The next three functions are not part of it:
  they split a text into lines and collect the single-quoted scalar of every line that is
  not a comment, and serve to show that the exported text determines the eighteen colours.
\<close>

fun splitLines :: "string \<Rightarrow> string list" where
  "splitLines [] = [[]]"
| "splitLines (c # cs) =
     (if c = CHR 0x0A then [] # splitLines cs
      else (case splitLines cs of [] \<Rightarrow> [[c]] | l # ls \<Rightarrow> (c # l) # ls))"

definition quotedScalar :: "string \<Rightarrow> string option" where
  "quotedScalar line =
     (if line \<noteq> [] \<and> hd line = CHR ''#'' then None
      else case dropWhile (\<lambda>c. c \<noteq> CHR 0x27) line of
             [] \<Rightarrow> None
           | _ # rest \<Rightarrow>
               if CHR 0x27 \<in> set rest then Some (takeWhile (\<lambda>c. c \<noteq> CHR 0x27) rest) else None)"

definition quotedScalars :: "string \<Rightarrow> string list" where
  "quotedScalars text = List.map_filter quotedScalar (splitLines text)"

text \<open>
  Parsed JSON. \<open>JUndefined\<close> is the result of reading a member that is not there.
  \<^verbatim>\<open>JSON.parse\<close> throws a \<^verbatim>\<open>SyntaxError\<close> unless the text is one JSON value with optional
  white space (space, tab, line feed, carriage return) around it; \<open>None\<close> stands for the
  exception. A text whose first character after the leading white space cannot begin a JSON
  value (an object, an array, a string, a number, \<^verbatim>\<open>true\<close>, \<^verbatim>\<open>false\<close> or \<^verbatim>\<open>null\<close>) is
  rejected for that reason alone; what the grammar makes of any other text is the parameter
  \<open>grammar\<close> of the import functions.
\<close>

datatype Json =
    JUndefined
  | JNull
  | JBool bool
  | JNumber real
  | JString string
  | JArray "Json list"
  | JObject "(string \<times> Json) list"

definition member :: "Json \<Rightarrow> string \<Rightarrow> Json" where
  \<comment> \<open>\<^verbatim>\<open>json.key\<close> on a parsed value that is not \<^verbatim>\<open>null\<close>; of a repeated key the last counts\<close>
  "member j k =
     (case j of JObject kvs \<Rightarrow> (case map_of (rev kvs) k of Some v \<Rightarrow> v | None \<Rightarrow> JUndefined)
      | _ \<Rightarrow> JUndefined)"

definition jsTruthy :: "Json \<Rightarrow> bool" where
  "jsTruthy j = (case j of JUndefined \<Rightarrow> False | JNull \<Rightarrow> False | JBool b \<Rightarrow> b
                  | JNumber x \<Rightarrow> x \<noteq> 0 | JString s \<Rightarrow> s \<noteq> [] | _ \<Rightarrow> True)"

definition jsOr :: "Json \<Rightarrow> Json \<Rightarrow> Json" where
  "jsOr a b = (if jsTruthy a then a else b)"

definition jsonWhitespace :: "char \<Rightarrow> bool" where
  "jsonWhitespace c = (c = CHR 0x20 \<or> c = CHR 0x09 \<or> c = CHR 0x0A \<or> c = CHR 0x0D)"

definition startsJsonValue :: "char \<Rightarrow> bool" where
  "startsJsonValue c = (c = CHR 0x22 \<or> c \<in> set ''{[-0123456789tfn'')"

definition JSON_parse :: "(string \<Rightarrow> Json option) \<Rightarrow> string \<Rightarrow> Json option" where
  "JSON_parse grammar text =
     (case dropWhile jsonWhitespace text of
        [] \<Rightarrow> None
      | c # rest \<Rightarrow> if startsJsonValue c then grammar text else None)"

datatype ImportError =
    UnsupportedFileFormat string
  | InvalidTermiStyleFile
  | InvalidJSONFile

record ImportedTheme =
  imported_source :: string
  imported_format :: string
  imported_theme :: Json
  imported_warnings :: "string list"

text \<open>
  A file to import: its path, \<^verbatim>\<open>path.extname(filePath).toLowerCase()\<close>,
  \<^verbatim>\<open>path.basename(filePath, ".json")\<close>, and its content.
\<close>

record ImportFile =
  file_path :: string
  file_extension :: string
  file_basename :: string
  file_content :: string

definition importFromTermiStyle ::
  "(string \<Rightarrow> Json option) \<Rightarrow> ImportFile \<Rightarrow> ImportError + ImportedTheme" where
  \<comment> \<open>lines 124-136\<close>
  "importFromTermiStyle grammar f =
     (case JSON_parse grammar (file_content f) of
        None \<Rightarrow> Inl InvalidTermiStyleFile
      | Some theme \<Rightarrow>
          Inr \<lparr>imported_source = file_path f, imported_format = ''termistyle'',
               imported_theme = theme, imported_warnings = []\<rparr>)"

definition importFromWindowsTerminal :: "string \<Rightarrow> string \<Rightarrow> Json \<Rightarrow> ImportFile \<Rightarrow> ImportedTheme" where
  \<comment> \<open>lines 166-208\<close>
  "importFromWindowsTerminal nowCreated nowModified json f =
     \<lparr>imported_source = file_path f,
      imported_format = ''windows-terminal'',
      imported_theme = JObject
        [(''name'', jsOr (member json ''name'') (JString (file_basename f))),
         (''version'', JString ''1.0.0''),
         (''created'', JString nowCreated),
         (''modified'', JString nowModified),
         (''colors'', JObject
           [(''background'', jsOr (member json ''background'') (JString ''#000000'')),
            (''foreground'', jsOr (member json ''foreground'') (JString ''#ffffff'')),
            (''selection'', jsOr (member json ''selectionBackground'') (JString ''#ffffff40'')),
            (''selectionBackground'',
               jsOr (member json ''selectionBackground'') (JString ''#ffffff40'')),
            (''ansiBlack'', jsOr (member json ''black'') (JString ''#000000'')),
            (''ansiRed'', jsOr (member json ''red'') (JString ''#cd3131'')),
            (''ansiGreen'', jsOr (member json ''green'') (JString ''#0dbc79'')),
            (''ansiYellow'', jsOr (member json ''yellow'') (JString ''#e5e510'')),
            (''ansiBlue'', jsOr (member json ''blue'') (JString ''#2472c8'')),
            (''ansiMagenta'', jsOr (member json ''purple'') (JString ''#bc3fbc'')),
            (''ansiCyan'', jsOr (member json ''cyan'') (JString ''#11a8cd'')),
            (''ansiWhite'', jsOr (member json ''white'') (JString ''#e5e5e5'')),
            (''ansiBrightBlack'', jsOr (member json ''brightBlack'') (JString ''#666666'')),
            (''ansiBrightRed'', jsOr (member json ''brightRed'') (JString ''#f14c4c'')),
            (''ansiBrightGreen'', jsOr (member json ''brightGreen'') (JString ''#23d18b'')),
            (''ansiBrightYellow'', jsOr (member json ''brightYellow'') (JString ''#f5f543'')),
            (''ansiBrightBlue'', jsOr (member json ''brightBlue'') (JString ''#3b8eea'')),
            (''ansiBrightMagenta'', jsOr (member json ''brightPurple'') (JString ''#d670d6'')),
            (''ansiBrightCyan'', jsOr (member json ''brightCyan'') (JString ''#29b8db'')),
            (''ansiBrightWhite'', jsOr (member json ''brightWhite'') (JString ''#e5e5e5'')),
            (''border'', JString ''#333333''),
            (''tab'', JObject
              [(''activeForeground'', JString ''#ffffff''),
               (''activeBackground'', JString ''#333333''),
               (''inactiveForeground'', JString ''#cccccc''),
               (''inactiveBackground'', JString ''#2d2d30''),
               (''border'', JString ''#333333'')])])],
      imported_warnings = []\<rparr>"

definition importFromJSON ::
  "(string \<Rightarrow> Json option) \<Rightarrow> string \<Rightarrow> string \<Rightarrow> ImportFile \<Rightarrow> ImportError + ImportedTheme" where
  \<comment> \<open>lines 138-164; reading a member of \<^verbatim>\<open>null\<close> throws inside the \<^verbatim>\<open>try\<close>\<close>
  "importFromJSON grammar nowCreated nowModified f =
     (case JSON_parse grammar (file_content f) of
        None \<Rightarrow> Inl InvalidJSONFile
      | Some JNull \<Rightarrow> Inl InvalidJSONFile
      | Some json \<Rightarrow>
          if jsTruthy (member json ''name'') \<and> jsTruthy (member json ''background'')
             \<and> jsTruthy (member json ''foreground'')
          then Inr (importFromWindowsTerminal nowCreated nowModified json f)
          else Inr \<lparr>imported_source = file_path f,
                    imported_format = ''json'',
                    imported_theme = JObject
                      [(''name'', jsOr (member json ''name'') (JString (file_basename f))),
                       (''version'', JString ''1.0.0''),
                       (''created'', JString nowCreated),
                       (''modified'', JString nowModified)],
                    imported_warnings =
                      [''Generic JSON import - may require manual adjustment'']\<rparr>)"

definition importTheme ::
  "(string \<Rightarrow> Json option) \<Rightarrow> string \<Rightarrow> string \<Rightarrow> ImportFile \<Rightarrow> ImportError + ImportedTheme" where
  \<comment> \<open>lines 44-63: the switch on the lower-cased extension\<close>
  "importTheme grammar nowCreated nowModified f =
     (let extension = file_extension f in
      if extension = ''.termistyle'' \<or> extension = ''.code-terminal-theme''
      then importFromTermiStyle grammar f
      else if extension = ''.json''
      then importFromJSON grammar nowCreated nowModified f
      else Inl (UnsupportedFileFormat extension))"

definition supportedFormats :: "(string \<times> string \<times> string) list" where
  \<comment> \<open>\<^verbatim>\<open>getSupportedFormats\<close>, lines 13-22: format, extension, content type\<close>
  "supportedFormats =
     [(''termistyle'', ''termistyle'', ''application/json''),
      (''iterm2'', ''itermcolors'', ''application/xml''),
      (''alacritty'', ''yml'', ''text/yaml''),
      (''windows-terminal'', ''json'', ''application/json''),
      (''hyper'', ''js'', ''text/javascript''),
      (''kitty'', ''conf'', ''text/plain'')]"

subsection \<open>Auto-switch scheduler (\<^verbatim>\<open>AutoSwitcher.ts\<close>)\<close>

datatype SwitchMode = TimeMode | SystemMode

record AutoSwitchConfig =
  enabled :: bool
  mode :: SwitchMode
  lightTheme :: string
  darkTheme :: string
  lightHour :: int
  darkHour :: int

text \<open>
  \<^verbatim>\<open>applyTimeBasedTheme\<close>, lines 227-235: the comparison on the current hour and the
  theme name handed to \<^verbatim>\<open>applyThemeByName\<close>.
\<close>

definition shouldUseLightTheme :: "AutoSwitchConfig \<Rightarrow> int \<Rightarrow> bool" where
  "shouldUseLightTheme cfg currentHour =
     (currentHour \<ge> lightHour cfg \<and> currentHour < darkHour cfg)"

definition timeBasedThemeName :: "AutoSwitchConfig \<Rightarrow> int \<Rightarrow> string" where
  "timeBasedThemeName cfg currentHour =
     (if shouldUseLightTheme cfg currentHour then lightTheme cfg else darkTheme cfg)"

definition applyThemeByName ::
  "string \<Rightarrow> TerminalTheme option \<Rightarrow> string \<Rightarrow> ExtensionState \<Rightarrow> ExtensionState" where
  \<comment> \<open>lines 249-260: an empty name and a name that is not in the store change nothing\<close>
  "applyThemeByName now current themeName st =
     (if themeName = [] then st
      else case find (\<lambda>t. name t = themeName) (savedThemes st) of
             None \<Rightarrow> st
           | Some theme \<Rightarrow> applyTheme now current theme st)"

definition applyTimeBasedTheme ::
  "AutoSwitchConfig \<Rightarrow> int \<Rightarrow> string \<Rightarrow> TerminalTheme option \<Rightarrow> ExtensionState \<Rightarrow> ExtensionState" where
  "applyTimeBasedTheme cfg currentHour now current st =
     applyThemeByName now current (timeBasedThemeName cfg currentHour) st"

definition defaultSchedule :: AutoSwitchConfig where
  \<comment> \<open>the defaults of \<^verbatim>\<open>loadConfig\<close>, time mode, with two theme names filled in\<close>
  "defaultSchedule =
     \<lparr>enabled = True, mode = TimeMode, lightTheme = ''Day'', darkTheme = ''Night'',
      lightHour = 6, darkHour = 18\<rparr>"

subsection \<open>Example documents\<close>

definition neonGlow :: TerminalTheme where
  \<comment> \<open>the example theme file "Neon Glow" shipped with the extension\<close>
  "neonGlow =
     \<lparr>name = ''Neon Glow'',
      version = ''1.0.0'',
      author = Some ''TermiStyle'',
      description = Some ''A futuristic cyberpunk theme with neon green glow effects'',
      created = ''2024-11-15T10:30:00.000Z'',
      modified = ''2024-11-15T10:30:00.000Z'',
      font = \<lparr>font_family = ''Fira Code, JetBrains Mono, monospace'', font_size = 14,
               font_weight = WNormal, font_ligatures = True, font_lineHeight = 12 / 10\<rparr>,
      cursor = \<lparr>cursor_style = Block, cursor_blinking = True, cursor_color = ''#00ff41''\<rparr>,
      colors =
        \<lparr>background = ''#0a0a0a'',
         foreground = ''#00ff41'',
         selection = ''#00ff4140'',
         selectionBackground = ''#00ff4140'',
         ansiBlack = ''#000000'',
         ansiRed = ''#ff0040'',
         ansiGreen = ''#00ff41'',
         ansiYellow = ''#ffff00'',
         ansiBlue = ''#0080ff'',
         ansiMagenta = ''#ff00ff'',
         ansiCyan = ''#00ffff'',
         ansiWhite = ''#ffffff'',
         ansiBrightBlack = ''#404040'',
         ansiBrightRed = ''#ff4080'',
         ansiBrightGreen = ''#40ff80'',
         ansiBrightYellow = ''#ffff40'',
         ansiBrightBlue = ''#4080ff'',
         ansiBrightMagenta = ''#ff40ff'',
         ansiBrightCyan = ''#40ffff'',
         ansiBrightWhite = ''#ffffff'',
         border = ''#00ff41'',
         tab = \<lparr>termTab_activeForeground = ''#00ff41'',
                 termTab_activeBackground = ''#0a0a0a'',
                 termTab_inactiveForeground = ''#40ff80'',
                 termTab_inactiveBackground = ''#000000'',
                 termTab_border = ''#00ff41''\<rparr>\<rparr>,
      editorTheme = None,
      integration =
        \<lparr>applyToEditor = False, applyToTerminal = True, applyToWorkbench = False,
         customCss = Some ''.terminal { text-shadow: 0 0 10px #00ff41; }''\<rparr>,
      effects =
        \<lparr>transparency = JSNumber 10 0, blur = 0, animations = True, particleEffects = False,
         glowEffect = True, scanlines = False, crtEffect = False\<rparr>\<rparr>"

definition defaultEditorTheme :: EditorTheme where
  \<comment> \<open>the editor theme \<^verbatim>\<open>getCurrentTheme\<close> builds from its defaults (lines 161-282)\<close>
  "defaultEditorTheme =
     \<lparr>
      editor =
        \<lparr>editor_background = ''#1e1e1e'',
          editor_foreground = ''#d4d4d4'',
          editor_selectionBackground = ''#264f78'',
          editor_selectionForeground = Some ''#ffffff'',
          editor_lineHighlightBackground = ''#2a2d2e'',
          editor_cursorColor = ''#ffffff'',
          editor_indentGuideBackground = ''#404040'',
          editor_indentGuideActiveBackground = ''#707070''\<rparr>,
      activityBar =
        \<lparr>activityBar_background = ''#333333'',
          activityBar_foreground = ''#ffffff'',
          activityBar_inactiveForeground = ''#ffffff66'',
          activityBar_border = ''#333333'',
          activityBar_activeBorder = ''#007acc'',
          activityBar_activeBackground = ''#333333''\<rparr>,
      sideBar =
        \<lparr>sideBar_background = ''#252526'',
          sideBar_foreground = ''#cccccc'',
          sideBar_border = ''#2d2d30''\<rparr>,
      sideBarSectionHeader = None,
      statusBar =
        \<lparr>statusBar_background = ''#007acc'',
          statusBar_foreground = ''#ffffff'',
          statusBar_border = ''#007acc'',
          statusBar_debuggingBackground = ''#cc6633'',
          statusBar_debuggingForeground = ''#ffffff'',
          statusBar_noFolderBackground = ''#68217a'',
          statusBar_noFolderForeground = ''#ffffff''\<rparr>,
      titleBar =
        \<lparr>titleBar_activeBackground = ''#3c3c3c'',
          titleBar_activeForeground = ''#cccccc'',
          titleBar_inactiveBackground = ''#3c3c3c'',
          titleBar_inactiveForeground = ''#999999'',
          titleBar_border = ''#333333''\<rparr>,
      panel =
        \<lparr>panel_background = ''#1e1e1e'',
          panel_border = ''#333333'',
          panel_dropBorder = ''#007acc''\<rparr>,
      panelTitle = None,
      editorTab =
        \<lparr>tab_activeBackground = ''#1e1e1e'',
          tab_activeForeground = ''#ffffff'',
          tab_activeBorder = ''#007acc'',
          tab_activeBorderTop = ''#007acc'',
          tab_inactiveBackground = ''#2d2d30'',
          tab_inactiveForeground = ''#ffffff80'',
          tab_inactiveModifiedBorder = ''#3399cc'',
          tab_unfocusedActiveBackground = ''#1e1e1e'',
          tab_unfocusedActiveForeground = ''#ffffff80'',
          tab_unfocusedInactiveBackground = ''#2d2d30'',
          tab_unfocusedInactiveForeground = ''#ffffff40'',
          tab_border = ''#333333''\<rparr>,
      input =
        \<lparr>input_background = ''#3c3c3c'',
          input_foreground = ''#cccccc'',
          input_border = ''#3c3c3c'',
          input_placeholderForeground = ''#a6a6a6''\<rparr>,
      dropdown =
        \<lparr>dropdown_background = ''#3c3c3c'',
          dropdown_foreground = ''#cccccc'',
          dropdown_border = ''#3c3c3c''\<rparr>,
      button =
        \<lparr>button_background = ''#0e639c'',
          button_foreground = ''#ffffff'',
          button_hoverBackground = ''#1177bb'',
          button_secondaryBackground = ''#5f6a79'',
          button_secondaryForeground = ''#ffffff'',
          button_secondaryHoverBackground = ''#4c5561''\<rparr>,
      checkbox =
        \<lparr>checkbox_background = ''#3c3c3c'',
          checkbox_foreground = ''#ffffff'',
          checkbox_border = ''#3c3c3c''\<rparr>,
      badge =
        \<lparr>badge_background = ''#007acc'',
          badge_foreground = ''#ffffff''\<rparr>,
      progressBar =
        \<lparr>progressBar_background = ''#007acc''\<rparr>,
      listTree =
        \<lparr>list_activeSelectionBackground = ''#094771'',
          list_activeSelectionForeground = ''#ffffff'',
          list_inactiveSelectionBackground = ''#37373d'',
          list_inactiveSelectionForeground = ''#cccccc'',
          list_hoverBackground = ''#2a2d2e'',
          list_hoverForeground = ''#cccccc'',
          list_focusBackground = ''#062f4a'',
          list_focusForeground = ''#cccccc''\<rparr>,
      scrollbar =
        \<lparr>scrollbar_shadow = ''#000000''\<rparr>,
      syntaxColors =
        \<lparr>syntax_comment = ''#6a9955'',
          syntax_keyword = ''#569cd6'',
          syntax_string = ''#ce9178'',
          syntax_number = ''#b5cea8'',
          syntax_function = ''#dcdcaa'',
          syntax_variable = ''#9cdcfe'',
          syntax_type = ''#4ec9b0'',
          syntax_class = ''#4ec9b0'',
          syntax_interface = ''#b8d7a3'',
          syntax_namespace = ''#4ec9b0'',
          syntax_operator = ''#d4d4d4'',
          syntax_punctuation = ''#d4d4d4'',
          syntax_constant = ''#4fc1ff'',
          syntax_property = ''#9cdcfe'',
          syntax_tag = ''#569cd6'',
          syntax_attribute = ''#92c5f8''\<rparr>\<rparr>"

definition neonGlowEverywhere :: TerminalTheme where
  \<comment> \<open>the same document with editor and workbench theming switched on\<close>
  "neonGlowEverywhere =
     neonGlow\<lparr>editorTheme := Some defaultEditorTheme,
              integration := (integration neonGlow)\<lparr>applyToEditor := True, applyToWorkbench := True\<rparr>\<rparr>"

definition emptyState :: ExtensionState where
  \<comment> \<open>a fresh installation: no setting customised, nothing stored\<close>
  "emptyState =
     \<lparr>configuration = (\<lambda>k. VUndefined), savedThemes = [], currentTheme = None, backups = []\<rparr>"

definition customisedState :: ExtensionState where
  \<comment> \<open>a user who already customised one colour of another extension and the terminal
      background by hand\<close>
  "customisedState =
     emptyState\<lparr>configuration :=
       (\<lambda>k. VUndefined)
         (''workbench.colorCustomizations'' :=
            VColors [''gitDecoration.addedResourceForeground'' \<mapsto> Some ''#81b88b'',
                     ''terminal.background'' \<mapsto> Some ''#ffffff''])\<rparr>"

definition neonGlowNoCss :: TerminalTheme where
  \<comment> \<open>"Neon Glow" without its \<^verbatim>\<open>customCss\<close> member; the transparency stays 10\<close>
  "neonGlowNoCss = neonGlow\<lparr>integration := (integration neonGlow)\<lparr>customCss := None\<rparr>\<rparr>"

definition darkPlusState :: ExtensionState where
  \<comment> \<open>a base colour theme is active and "Neon Glow" is in the store\<close>
  "darkPlusState =
     emptyState\<lparr>configuration := (\<lambda>k. VUndefined)(''workbench.colorTheme'' := VString ''Default Dark+''),
                savedThemes := [neonGlow]\<rparr>"

definition fifteenCalls :: "(string \<times> TerminalTheme option) list" where
  "fifteenCalls =
     map (\<lambda>t. (t, None))
       [''10:00'', ''10:01'', ''10:02'', ''10:03'', ''10:04'', ''10:05'', ''10:06'', ''10:07'',
        ''10:08'', ''10:09'', ''10:10'', ''10:11'', ''10:12'', ''10:13'', ''10:14'']"

definition twoThemeState :: ExtensionState where
  \<comment> \<open>a store that holds "Neon Glow" and, after it, a copy under another name\<close>
  "twoThemeState = emptyState\<lparr>savedThemes := [neonGlow, neonGlow\<lparr>name := ''Midnight''\<rparr>]\<rparr>"

definition lenientGrammar :: "string \<Rightarrow> Json option" where
  \<comment> \<open>a grammar that takes every text for the empty object: no JSON grammar accepts more\<close>
  "lenientGrammar content = Some (JObject [])"

section \<open>Properties\<close>

subsection \<open>Object.assign on colour maps\<close>

lemma object_assign_Nil [simp]: "object_assign m [] = m"
  by (simp add: object_assign_def)

lemma object_assign_Cons: "object_assign m ((k, v) # kvs) = object_assign (m(k \<mapsto> v)) kvs"
  by (simp add: object_assign_def)

lemma object_assign_append:
  "object_assign m (xs @ ys) = object_assign (object_assign m xs) ys"
  by (simp add: object_assign_def)

lemma object_assign_one: "m(k \<mapsto> v) = object_assign m [(k, v)]"
  by (simp add: object_assign_def)

lemma object_assign_map_add: "object_assign m kvs = m ++ map_of (rev kvs)"
proof (induction kvs arbitrary: m)
  case Nil
  then show ?case by simp
next
  case (Cons p kvs)
  obtain k v where p: "p = (k, v)" by (cases p)
  have "object_assign m (p # kvs) = (m(k \<mapsto> v)) ++ map_of (rev kvs)"
    by (simp only: p object_assign_Cons Cons.IH)
  also have "\<dots> = m ++ map_of (rev (p # kvs))"
    by (simp add: p map_add_def fun_eq_iff split: option.splits)
  finally show ?case .
qed

lemma map_add_twice: "(m ++ f) ++ f = m ++ (f :: 'a \<rightharpoonup> 'b)"
  by (simp add: map_add_def fun_eq_iff split: option.splits)

lemma object_assign_idem:
  "object_assign (object_assign m kvs) kvs = object_assign m kvs"
  by (simp add: object_assign_map_add map_add_twice)

lemma object_assign_other:
  "k \<notin> fst ` set kvs \<Longrightarrow> object_assign m kvs k = m k"
  by (simp add: object_assign_map_add map_add_def map_of_eq_None_iff [THEN iffD2])

lemma dom_object_assign: "dom (object_assign m kvs) = dom m \<union> fst ` set kvs"
  by (simp add: object_assign_map_add dom_map_of_conv_image_fst Un_commute)

subsection \<open>Reading the store after a run of updates\<close>

lemma run_updates_Nil [simp]: "run_updates cfg [] = cfg"
  by (simp add: run_updates_def)

lemma run_updates_append:
  "run_updates cfg (us @ vs) = run_updates (run_updates cfg us) vs"
  by (simp add: run_updates_def)

lemma run_updates_Cons:
  "run_updates cfg (u # us) = run_updates (cfg(fst u := snd u)) us"
  by (simp add: run_updates_def config_update_def)

lemma run_updates_lookup:
  "run_updates cfg us k = (case map_of (rev us) k of None \<Rightarrow> cfg k | Some v \<Rightarrow> v)"
proof (induction us arbitrary: cfg)
  case Nil
  then show ?case by simp
next
  case (Cons u us)
  show ?case
    by (cases u) (simp add: run_updates_Cons Cons.IH map_add_def split: option.splits)
qed

lemma getColorCustomizations_VColors:
  "cfg ''workbench.colorCustomizations'' = VColors m \<Longrightarrow> getColorCustomizations cfg = m"
  by (simp add: getColorCustomizations_def)


subsection \<open>The colour map that one apply leaves in the store\<close>

lemma mergedColorCustomizations_writes:
  "mergedColorCustomizations theme m =
     object_assign m
       ((if applyToEditor (integration theme) \<and> editorTheme theme \<noteq> None
         then editorColors (the (editorTheme theme))
         else if applyToEditor (integration theme) then basicEditorColors theme else [])
        @ (if applyToWorkbench (integration theme) \<and> editorTheme theme = None
           then basicWorkbenchColors theme else [])
        @ terminalColors theme)"
  by (simp add: mergedColorCustomizations_def workbenchIntegration_def editorIntegration_def
      object_assign_append)

lemma applyTheme_updates_colors:
  "run_updates cfg (applyTheme_updates theme cfg) ''workbench.colorCustomizations'' =
     VColors (mergedColorCustomizations theme (getColorCustomizations cfg))"
  by (simp add: run_updates_lookup applyTheme_updates_def tokenUpdates_def)

lemma applyTheme_updates_getColors:
  "getColorCustomizations (run_updates cfg (applyTheme_updates theme cfg)) =
     mergedColorCustomizations theme (getColorCustomizations cfg)"
  by (rule getColorCustomizations_VColors) (rule applyTheme_updates_colors)

lemma applyTheme_config_colors:
  "getColorCustomizations (applyTheme_config theme cfg) =
     object_assign (getColorCustomizations cfg) (colorWrites theme)"
proof (cases "hasCustomCss theme \<and> positive (transparency (effects theme))")
  case True
  have "applyTheme_config theme cfg ''workbench.colorCustomizations'' =
          VColors ((mergedColorCustomizations theme (getColorCustomizations cfg))
                    (''terminal.background'' \<mapsto>
                       Some (background (colors theme) @ alphaSuffix (transparency (effects theme)))))"
    using True
    by (simp add: applyTheme_config_def applyTheme_trace_def Let_def run_updates_append
        applyCustomEffects_updates_def run_updates_Cons applyTheme_updates_getColors)
  then show ?thesis
    using True
    by (simp add: getColorCustomizations_def mergedColorCustomizations_writes colorWrites_def
        object_assign_append object_assign_def)
next
  case False
  have "applyTheme_config theme cfg = run_updates cfg (applyTheme_updates theme cfg)"
    using False
    by (auto simp: applyTheme_config_def applyTheme_trace_def Let_def
        applyCustomEffects_updates_def)
  then show ?thesis
    using False
    by (auto simp: applyTheme_updates_getColors mergedColorCustomizations_writes
        colorWrites_def)
qed

lemma applyTheme_configuration:
  "configuration (applyTheme now current theme st) = applyTheme_config theme (configuration st)"
  by (simp add: applyTheme_def createBackup_def Let_def)

subsection \<open>Binary64 arithmetic and the alpha suffix\<close>

lemma positive_val: "positive x \<longleftrightarrow> 0 < val x"
  unfolding positive_def val_def
proof
  have p: "(0::real) < 2 powi exponent x" by simp
  assume "0 < significand x"
  then have "0 < real_of_int (significand x)" by simp
  from this p show "0 < real_of_int (significand x) * 2 powi exponent x"
    by (rule mult_pos_pos)
next
  have p: "(0::real) < 2 powi exponent x" by simp
  assume "0 < real_of_int (significand x) * 2 powi exponent x"
  from this p have "0 < real_of_int (significand x)" by (rule zero_less_mult_pos2)
  then show "0 < significand x" by simp
qed

lemma bit_length_bounds:
  "0 < n \<Longrightarrow> 2 ^ (bit_length n - 1) \<le> n \<and> n < 2 ^ bit_length n"
proof (induction n rule: bit_length.induct)
  case (1 n)
  show ?case
  proof (cases "n div 2 = 0")
    case True
    with "1.prems" have "n = 1" by presburger
    then show ?thesis
      by (simp add: bit_length.simps [of 1] bit_length.simps [of 0])
  next
    case False
    with "1.prems" have pos: "0 < n div 2" by presburger
    from "1.prems" have "\<not> n \<le> 0" by simp
    from "1.IH" [OF this pos] have ih: "2 ^ (bit_length (n div 2) - 1) \<le> n div 2"
      "n div 2 < 2 ^ bit_length (n div 2)" by simp_all
    from pos have "0 < bit_length (n div 2)"
      by (simp add: bit_length.simps [of "n div 2"])
    then obtain j where j: "bit_length (n div 2) = Suc j" by (cases "bit_length (n div 2)") auto
    have bl: "bit_length n = Suc (Suc j)"
      using "1.prems" j by (simp add: bit_length.simps [of n])
    from ih j have "2 ^ j \<le> n div 2" "n div 2 < 2 * 2 ^ j" by simp_all
    then have "2 * 2 ^ j \<le> n" "n < 2 * (2 * 2 ^ j)" by presburger+
    then show ?thesis by (simp add: bl)
  qed
qed

lemma round_ties_even_error:
  assumes "0 \<le> p"
  shows "\<bar>round_ties_even p k * 2 ^ k - p\<bar> * 2 \<le> 2 ^ k" and "0 \<le> round_ties_even p k"
proof -
  define q where "q = p div 2 ^ k"
  define r where "r = p mod 2 ^ k"
  have p: "p = q * 2 ^ k + r" unfolding q_def r_def by (rule div_mult_mod_eq [symmetric])
  have r: "0 \<le> r" "r < 2 ^ k" by (simp_all add: r_def)
  have q: "0 \<le> q" using assms by (simp add: q_def pos_imp_zdiv_nonneg_iff)
  have rt: "round_ties_even p k = q \<and> 2 * r \<le> 2 ^ k \<or>
            round_ties_even p k = q + 1 \<and> 2 ^ k \<le> 2 * r"
    by (auto simp: round_ties_even_def Let_def q_def r_def)
  then show "\<bar>round_ties_even p k * 2 ^ k - p\<bar> * 2 \<le> 2 ^ k"
    using r by (auto simp: p algebra_simps)
  from rt q show "0 \<le> round_ties_even p k" by auto
qed

lemma round53_error: "\<bar>val (round53 x) - val x\<bar> * 2 ^ 53 \<le> \<bar>val x\<bar>"
proof -
  define m where "m = significand x"
  define a where "a = \<bar>m\<bar>"
  define k where "k = bit_length a - 53"
  define t where "t = round_ties_even a k"
  have a0: "0 \<le> a" by (simp add: a_def)
  have rx: "round53 x = JSNumber (sgn m * t) (exponent x + int k)"
    by (simp add: round53_def Let_def m_def a_def k_def t_def)
  have vx: "val x = real_of_int (sgn m * a) * 2 powi exponent x"
    by (simp add: val_def m_def a_def mult_sgn_abs)
  have vr: "val (round53 x) = real_of_int (sgn m * (t * 2 ^ k)) * 2 powi exponent x"
    by (simp add: rx val_def power_int_add mult.assoc mult.left_commute)
  have diff: "\<bar>val (round53 x) - val x\<bar> = real_of_int \<bar>t * 2 ^ k - a\<bar> * 2 powi exponent x"
  proof (cases "m = 0")
    case True
    then have "a = 0" by (simp add: a_def)
    then have "t = 0" by (simp add: t_def round_ties_even_def)
    with \<open>a = 0\<close> show ?thesis by (simp add: vx vr)
  next
    case False
    then have "\<bar>sgn m\<bar> = 1" by (simp add: abs_sgn_eq)
    then have s: "\<bar>real_of_int (sgn m)\<bar> = 1"
      by (metis of_int_1 of_int_abs)
    have "val (round53 x) - val x = real_of_int (sgn m * (t * 2 ^ k - a)) * 2 powi exponent x"
      by (simp add: vx vr algebra_simps)
    then show ?thesis
      using s by (simp add: abs_mult)
  qed
  have bound: "\<bar>t * 2 ^ k - a\<bar> * 2 ^ 53 \<le> a"
  proof (cases "k = 0")
    case True
    then have "t = a" by (simp add: t_def round_ties_even_def)
    with True a0 show ?thesis by simp
  next
    case False
    then have bl: "bit_length a = k + 53" by (simp add: k_def)
    then have "0 < a" using a0 by (cases "a = 0") (simp_all add: bit_length.simps [of 0])
    from bit_length_bounds [OF this] bl have "2 ^ (k + 52) \<le> a" by (simp add: add.commute)
    moreover from round_ties_even_error(1) [OF a0, of k]
    have "\<bar>t * 2 ^ k - a\<bar> * 2 \<le> 2 ^ k" by (simp add: t_def)
    then have "\<bar>t * 2 ^ k - a\<bar> * 2 * 2 ^ 52 \<le> 2 ^ k * 2 ^ 52"
      by (rule mult_right_mono) simp
    ultimately show ?thesis by (simp add: power_add)
  qed
  have "\<bar>val (round53 x) - val x\<bar> * 2 ^ 53 =
          real_of_int (\<bar>t * 2 ^ k - a\<bar> * 2 ^ 53) * 2 powi exponent x"
    by (simp add: diff)
  also have "\<dots> \<le> real_of_int a * 2 powi exponent x"
    using bound by (intro mult_right_mono) (simp_all only: of_int_le_iff zero_le_power_int zero_le_numeral)
  also have "\<dots> = \<bar>val x\<bar>"
    by (simp add: val_def abs_mult a_def m_def)
  finally show ?thesis .
qed

lemma val_difference:
  "val (JSNumber (significand a * 2 ^ nat (exponent a - min (exponent a) (exponent b))
                  - significand b * 2 ^ nat (exponent b - min (exponent a) (exponent b)))
                 (min (exponent a) (exponent b))) = val a - val b"
proof -
  define e where "e = min (exponent a) (exponent b)"
  have pw: "2 ^ nat (f - e) * 2 powi e = (2::real) powi f" if "e \<le> f" for f
  proof -
    have "(2::real) powi f = 2 powi ((f - e) + e)" by simp
    also have "\<dots> = 2 powi (f - e) * 2 powi e"
      by (rule power_int_add) simp
    also have "(2::real) powi (f - e) = 2 ^ nat (f - e)"
      using that by (simp add: power_int_nonneg_exp)
    finally show ?thesis by simp
  qed
  have le: "e \<le> exponent a" "e \<le> exponent b" by (simp_all add: e_def)
  have "val (JSNumber (significand a * 2 ^ nat (exponent a - e)
                       - significand b * 2 ^ nat (exponent b - e)) e) =
          real_of_int (significand a) * (2 ^ nat (exponent a - e) * 2 powi e)
          - real_of_int (significand b) * (2 ^ nat (exponent b - e) * 2 powi e)"
    by (simp add: val_def algebra_simps)
  also have "\<dots> = val a - val b"
    by (simp only: pw [OF le(1)] pw [OF le(2)] val_def)
  finally show ?thesis by (simp only: e_def)
qed

lemma val_product:
  "val (JSNumber (significand a * significand b) (exponent a + exponent b)) = val a * val b"
  by (simp add: val_def power_int_add)

lemma math_round_floor: "math_round x = \<lfloor>val x + 1 / 2\<rfloor>"
proof (cases "0 \<le> exponent x")
  case True
  then have eq: "val x = real_of_int (significand x * 2 ^ nat (exponent x))"
    by (simp add: val_def power_int_nonneg_exp)
  have "\<lfloor>real_of_int z + 1 / 2\<rfloor> = z" for z :: int
    by (rule floor_unique) simp_all
  with eq have "\<lfloor>val x + 1 / 2\<rfloor> = significand x * 2 ^ nat (exponent x)"
    by (simp only:)
  with True show ?thesis by (simp add: math_round_def)
next
  case False
  define n where "n = nat (- exponent x - 1)"
  from False have e: "exponent x = - int (Suc n)" by (simp add: n_def)
  have "(2::real) powi (- int (Suc n)) = 1 / 2 ^ Suc n"
    by (simp only: power_int_minus_divide power_int_of_nat)
  then have "val x = real_of_int (significand x) / 2 ^ Suc n"
    by (simp only: val_def e times_divide_eq_right mult_1_right)
  then have "val x + 1 / 2 = real_of_int (significand x + 2 ^ n) / real_of_int (2 ^ Suc n)"
    by (simp add: add_divide_distrib)
  then have "\<lfloor>val x + 1 / 2\<rfloor> = (significand x + 2 ^ n) div 2 ^ Suc n"
    by (simp only: floor_divide_of_int_eq)
  moreover have "nat (- exponent x - 1) = n" "nat (- exponent x) = Suc n"
    using False by (simp_all add: n_def)
  ultimately show ?thesis
    using False by (simp only: math_round_def if_False)
qed

lemma scale53: "a * 2 ^ 53 \<le> b \<Longrightarrow> a \<le> b * (1 / 2 ^ 53)" for a b :: real
  by simp

lemma val_minus64: "\<bar>val (minus64 a b) - (val a - val b)\<bar> * 2 ^ 53 \<le> \<bar>val a - val b\<bar>"
  using round53_error
    [of "JSNumber (significand a * 2 ^ nat (exponent a - min (exponent a) (exponent b))
                   - significand b * 2 ^ nat (exponent b - min (exponent a) (exponent b)))
                  (min (exponent a) (exponent b))"]
  by (simp only: minus64_def Let_def val_difference)

lemma val_times64: "\<bar>val (times64 a b) - val a * val b\<bar> * 2 ^ 53 \<le> \<bar>val a * val b\<bar>"
  using round53_error [of "JSNumber (significand a * significand b) (exponent a + exponent b)"]
  by (simp only: times64_def val_product)

lemma val_dbl_2_55: "val dbl_2_55 = 5742089524897382 / 2 ^ 51"
  by (simp add: val_def dbl_2_55_def power_int_minus_divide)

lemma alphaProduct_bounds:
  assumes "0 \<le> val t" and "val t \<le> 100"
  shows "0 \<le> val (alphaProduct t)"
    and "val (alphaProduct t) < 255 + 1 / 2"
    and "\<bar>val (alphaProduct t) - (100 - val t) * (255 / 100)\<bar> \<le> 1 / 2 ^ 43"
proof -
  define u :: real where "u = 1 / 2 ^ 53"
  define c :: real where "c = 5742089524897382 / 2 ^ 51"
  define x where "x = 100 - val t"
  define d where "d = val (minus64 (JSNumber 100 0) t)"
  define p where "p = val (alphaProduct t)"
  have x: "0 \<le> x" "x \<le> 100" using assms by (simp_all add: x_def)
  have c: "0 \<le> c" "c \<le> 255 / 100" "255 / 100 - c \<le> 2 * u"
    by (simp_all add: c_def u_def)
  have u: "0 \<le> u" by (simp add: u_def)
  have "val (JSNumber 100 0) = 100" by (simp add: val_def)
  with val_minus64 [of "JSNumber 100 0" t] have "\<bar>d - x\<bar> * 2 ^ 53 \<le> x"
    using x by (simp add: d_def x_def)
  then have dx: "\<bar>d - x\<bar> \<le> x * u"
    unfolding u_def by (rule scale53)
  then have d: "0 \<le> d" "d \<le> 100 + 100 * u"
  proof -
    have "x * u \<le> x" using x by (simp add: u_def mult_left_le)
    with dx show "0 \<le> d" by linarith
    have "x * u \<le> 100 * u" using x u by (simp add: mult_right_mono)
    with dx x show "d \<le> 100 + 100 * u" by linarith
  qed
  have dc: "0 \<le> d * c" "d * c \<le> (100 + 100 * u) * c"
    using d c by (simp_all add: mult_right_mono)
  have "\<bar>p - d * c\<bar> * 2 ^ 53 \<le> d * c"
    using val_times64 [of "minus64 (JSNumber 100 0) t" dbl_2_55] dc(1)
    by (simp add: p_def d_def c_def alphaProduct_def val_dbl_2_55)
  then have pd: "\<bar>p - d * c\<bar> \<le> d * c * u"
    unfolding u_def by (rule scale53)
  have dcu: "d * c * u \<le> (100 + 100 * u) * c * u"
    using dc(2) u by (simp add: mult_right_mono)
  have "d * c * u \<le> d * c * 1"
    using dc(1) by (intro mult_left_mono) (simp_all add: u_def)
  then have "d * c * u \<le> d * c" by simp
  with pd show "0 \<le> val (alphaProduct t)"
    unfolding p_def [symmetric] by linarith
  have k1: "(100 + 100 * u) * c + (100 + 100 * u) * c * u < 255 + 1 / 2"
    by (simp add: u_def c_def)
  from pd dc(2) dcu k1 show "val (alphaProduct t) < 255 + 1 / 2"
    unfolding p_def [symmetric] by linarith
  have "\<bar>d * c - x * c\<bar> = \<bar>d - x\<bar> * c"
    using c(1) by (simp add: abs_mult left_diff_distrib [symmetric])
  also have "\<dots> \<le> x * u * c"
    using dx c(1) by (rule mult_right_mono)
  also have "\<dots> \<le> 100 * u * c"
    using x u c(1) by (intro mult_right_mono) simp_all
  finally have e2: "\<bar>d * c - x * c\<bar> \<le> 100 * u * c" .
  define r :: real where "r = 255 / 100"
  have r: "c \<le> r" "r - c \<le> 2 * u" using c by (simp_all add: r_def)
  have e3a: "x * c \<le> x * r" using x(1) r(1) by (rule mult_left_mono [rotated])
  have "x * (r - c) \<le> 100 * (2 * u)"
    using x r u by (intro mult_mono) simp_all
  then have e3b: "x * r - x * c \<le> 100 * (2 * u)" by (simp add: right_diff_distrib)
  have k2: "(100 + 100 * u) * c * u + 100 * u * c + 100 * (2 * u) \<le> 1 / 2 ^ 43"
    by (simp add: u_def c_def)
  from pd dcu e2 e3a e3b k2 show "\<bar>val (alphaProduct t) - (100 - val t) * (255 / 100)\<bar> \<le> 1 / 2 ^ 43"
    unfolding p_def [symmetric] x_def [symmetric] r_def [symmetric] by linarith
qed

lemma alphaValue_bounds:
  assumes "0 \<le> val t" and "val t \<le> 100"
  shows "0 \<le> alphaValue t" and "alphaValue t \<le> 255"
    and "real_of_int (alphaValue t) \<le> (100 - val t) * (255 / 100) + 1 / 2 + 1 / 2 ^ 43"
    and "(100 - val t) * (255 / 100) - 1 / 2 - 1 / 2 ^ 43 < real_of_int (alphaValue t)"
proof -
  note b = alphaProduct_bounds [OF assms]
  have av: "alphaValue t = \<lfloor>val (alphaProduct t) + 1 / 2\<rfloor>"
    by (simp add: alphaValue_def math_round_floor)
  from b(1) show "0 \<le> alphaValue t" by (simp add: av)
  from b(2) have "\<lfloor>val (alphaProduct t) + 1 / 2\<rfloor> < 256"
    by (simp add: floor_less_iff)
  then show "alphaValue t \<le> 255" by (simp add: av)
  have "real_of_int (alphaValue t) \<le> val (alphaProduct t) + 1 / 2"
    unfolding av by (rule of_int_floor_le)
  with b(3) show "real_of_int (alphaValue t) \<le> (100 - val t) * (255 / 100) + 1 / 2 + 1 / 2 ^ 43"
    by linarith
  have "val (alphaProduct t) + 1 / 2 < real_of_int (alphaValue t) + 1"
    unfolding av by linarith
  with b(3) show "(100 - val t) * (255 / 100) - 1 / 2 - 1 / 2 ^ 43 < real_of_int (alphaValue t)"
    by linarith
qed

lemma small_value_no_overflow:
  assumes "\<bar>val x\<bar> < 256"
  shows "\<not> overflows x"
proof (cases "significand x = 0")
  case True
  then show ?thesis by (simp add: overflows_def)
next
  case False
  define a where "a = \<bar>significand x\<bar>"
  define b where "b = bit_length a"
  from False have "0 < a" by (simp add: a_def)
  from bit_length_bounds [OF this] have lo: "2 ^ (b - 1) \<le> a" by (simp add: b_def)
  from \<open>0 < a\<close> have bpos: "0 < b" by (simp add: b_def bit_length.simps [of a])
  from bpos have "int b - 1 = int (b - 1)" by simp
  then have "(2::real) powi (int b - 1) = 2 ^ (b - 1)"
    by (simp only: power_int_of_nat)
  then have "(2::real) powi (int b - 1 + exponent x) = 2 ^ (b - 1) * 2 powi exponent x"
    by (subst power_int_add) simp_all
  also have "\<dots> \<le> real_of_int a * 2 powi exponent x"
  proof (rule mult_right_mono)
    from lo have "real_of_int (2 ^ (b - 1)) \<le> real_of_int a" by (simp only: of_int_le_iff)
    then show "(2::real) ^ (b - 1) \<le> real_of_int a" by simp
  qed simp
  also have "\<dots> = \<bar>val x\<bar>" by (simp add: val_def abs_mult a_def)
  also have "\<dots> < 2 powi 8" using assms by simp
  finally have "int b - 1 + exponent x < 8"
    by (rule power_int_le_imp_less_exp [rotated]) simp_all
  then show ?thesis by (simp add: overflows_def a_def b_def)
qed

lemma round_ties_even_double: "round_ties_even (2 * a) (Suc k) = round_ties_even a k"
  by (simp add: round_ties_even_def Let_def)

lemma bit_length_double: "0 < a \<Longrightarrow> bit_length (2 * a) = Suc (bit_length a)"
  by (simp add: bit_length.simps [of "2 * a"])

lemma val_double: "val (JSNumber (2 * m) (e - 1)) = val (JSNumber m e)"
proof -
  have "(2::real) powi e = 2 powi ((e - 1) + 1)" by simp
  also have "\<dots> = 2 powi (e - 1) * 2" by (subst power_int_add) simp_all
  finally show ?thesis by (simp add: val_def)
qed

lemma round53_eq:
  "round53 (JSNumber m e) =
     JSNumber (sgn m * round_ties_even \<bar>m\<bar> (bit_length \<bar>m\<bar> - 53))
       (e + int (bit_length \<bar>m\<bar> - 53))"
  by (simp add: round53_def Let_def)

lemma round53_double: "val (round53 (JSNumber (2 * m) (e - 1))) = val (round53 (JSNumber m e))"
proof (cases "m = 0")
  case True
  then show ?thesis by (simp add: round53_def Let_def val_def)
next
  case False
  define a where "a = \<bar>m\<bar>"
  define k where "k = bit_length a - 53"
  define k' where "k' = bit_length (2 * a) - 53"
  from False have a: "0 < a" by (simp add: a_def)
  have abs2: "\<bar>2 * m\<bar> = 2 * a" by (simp add: a_def abs_mult)
  have sg: "sgn (2 * m) = sgn m" by (simp add: sgn_mult)
  have bl: "bit_length (2 * a) = Suc (bit_length a)" using a by (rule bit_length_double)
  have l: "round53 (JSNumber (2 * m) (e - 1)) =
             JSNumber (sgn m * round_ties_even (2 * a) k') (e - 1 + int k')"
    by (simp only: round53_eq abs2 sg k'_def)
  have r: "round53 (JSNumber m e) = JSNumber (sgn m * round_ties_even a k) (e + int k)"
    by (simp only: round53_eq a_def k_def)
  show ?thesis
  proof (cases "bit_length a < 53")
    case True
    then have "k = 0" "k' = 0" by (simp_all add: k_def k'_def bl)
    moreover have "round_ties_even p 0 = p" for p by (simp add: round_ties_even_def)
    moreover have "val (JSNumber (2 * (sgn m * a)) (e - 1)) = val (JSNumber (sgn m * a) e)"
      by (rule val_double)
    ultimately show ?thesis by (simp add: l r mult.left_commute)
  next
    case False
    then have "k' = Suc k" by (simp add: k_def k'_def bl)
    then show ?thesis
      by (simp add: l r round_ties_even_double del: round_ties_even_def)
  qed
qed

lemma round53_shift:
  "val (round53 (JSNumber (m * 2 ^ j) (e - int j))) = val (round53 (JSNumber m e))"
proof (induction j arbitrary: m e)
  case 0
  then show ?case by simp
next
  case (Suc j)
  have "val (round53 (JSNumber (m * 2 ^ Suc j) (e - int (Suc j)))) =
          val (round53 (JSNumber (2 * (m * 2 ^ j)) ((e - int j) - 1)))"
    by (simp add: algebra_simps)
  also have "\<dots> = val (round53 (JSNumber (m * 2 ^ j) (e - int j)))"
    by (rule round53_double)
  also have "\<dots> = val (round53 (JSNumber m e))"
    by (rule Suc.IH)
  finally show ?case .
qed

lemma val_eq_shift:
  assumes "val x = val y" and "exponent x \<le> exponent y"
  shows "significand x = significand y * 2 ^ nat (exponent y - exponent x)"
proof -
  define n where "n = nat (exponent y - exponent x)"
  have "(2::real) powi exponent y = 2 powi (int n + exponent x)"
    using assms(2) by (simp add: n_def)
  also have "\<dots> = 2 ^ n * 2 powi exponent x"
    by (subst power_int_add) simp_all
  finally have "val y = real_of_int (significand y * 2 ^ n) * 2 powi exponent x"
    by (simp add: val_def)
  with assms(1) have "real_of_int (significand x) * 2 powi exponent x =
      real_of_int (significand y * 2 ^ n) * 2 powi exponent x"
    by (simp add: val_def)
  then have "real_of_int (significand x) = real_of_int (significand y * 2 ^ n)"
    by simp
  then show ?thesis
    unfolding n_def by (simp only: of_int_eq_iff)
qed

lemma round53_cong_le:
  assumes "val x = val y" and "exponent x \<le> exponent y"
  shows "val (round53 x) = val (round53 y)"
proof -
  define j where "j = nat (exponent y - exponent x)"
  have ex: "exponent x = exponent y - int j" using assms(2) by (simp add: j_def)
  have "x = JSNumber (significand y * 2 ^ j) (exponent y - int j)"
    using val_eq_shift [OF assms] ex by (cases x) (simp add: j_def)
  then have "val (round53 x) = val (round53 (JSNumber (significand y) (exponent y)))"
    by (simp only: round53_shift)
  then show ?thesis by simp
qed

lemma round53_cong: "val x = val y \<Longrightarrow> val (round53 x) = val (round53 y)"
  using round53_cong_le [of x y] round53_cong_le [of y x]
  by (cases "exponent x \<le> exponent y") simp_all

lemma minus64_cong:
  assumes "val b = val b'"
  shows "val (minus64 a b) = val (minus64 a b')"
proof -
  have "val (JSNumber (significand a * 2 ^ nat (exponent a - min (exponent a) (exponent b))
                       - significand b * 2 ^ nat (exponent b - min (exponent a) (exponent b)))
                      (min (exponent a) (exponent b))) =
        val (JSNumber (significand a * 2 ^ nat (exponent a - min (exponent a) (exponent b'))
                       - significand b' * 2 ^ nat (exponent b' - min (exponent a) (exponent b')))
                      (min (exponent a) (exponent b')))"
    by (simp only: val_difference assms)
  then show ?thesis
    unfolding minus64_def Let_def by (rule round53_cong)
qed

lemma times64_cong:
  assumes "val a = val a'"
  shows "val (times64 a b) = val (times64 a' b)"
proof -
  have "val (JSNumber (significand a * significand b) (exponent a + exponent b)) =
        val (JSNumber (significand a' * significand b) (exponent a' + exponent b))"
    by (simp only: val_product assms)
  then show ?thesis
    unfolding times64_def by (rule round53_cong)
qed

lemma alphaValue_cong:
  assumes "val t = val t'"
  shows "alphaValue t = alphaValue t'"
proof -
  have "val (minus64 (JSNumber 100 0) t) = val (minus64 (JSNumber 100 0) t')"
    using assms by (rule minus64_cong)
  then have "val (alphaProduct t) = val (alphaProduct t')"
    unfolding alphaProduct_def by (rule times64_cong)
  then show ?thesis
    by (simp only: alphaValue_def math_round_floor)
qed

lemma hex_two_digits:
  assumes "0 \<le> a" and "a \<le> 255"
  shows "padStart 2 (CHR ''0'') (toString16 a) =
           [hexDigit (nat a div 16), hexDigit (nat a mod 16)]"
proof -
  define n where "n = nat a"
  from assms have n: "n < 256" and a: "toString16 a = hexDigits n"
    by (simp_all add: n_def toString16_def)
  have d0: "hexDigit 0 = CHR ''0''" by (simp add: hexDigit_def)
  have dm: "hexDigit (n mod 16) = hexDigit n" by (simp add: hexDigit_def)
  show ?thesis
  proof (cases "n < 16")
    case True
    then show ?thesis
      by (simp add: a n_def [symmetric] hexDigits.simps [of n] padStart_def d0)
  next
    case False
    with n have "n div 16 < 16" by simp
    with False show ?thesis
      by (simp add: a n_def [symmetric] hexDigits.simps [of n] hexDigits.simps [of "n div 16"]
          padStart_def dm)
  qed
qed

lemma hexDigit_lower: "hexDigit d \<in> set ''0123456789abcdef''"
  unfolding hexDigit_def by (rule nth_mem) simp

lemma alphaSuffix_in_range:
  assumes "0 \<le> val t" and "val t \<le> 100"
  shows "alphaSuffix t =
           [hexDigit (nat (alphaValue t) div 16), hexDigit (nat (alphaValue t) mod 16)]"
proof -
  note b = alphaProduct_bounds [OF assms]
  from b(1,2) have "\<bar>val (alphaProduct t)\<bar> < 256" by simp
  then have "\<not> overflows (alphaProduct t)" by (rule small_value_no_overflow)
  then have "alphaSuffix t = padStart 2 (CHR ''0'') (toString16 (alphaValue t))"
    by (simp add: alphaSuffix_def Let_def alphaValue_def)
  with hex_two_digits [OF alphaValue_bounds(1,2) [OF assms]] show ?thesis by simp
qed


lemma alphaValue_hundred: "val t = 100 \<Longrightarrow> alphaValue t = 0"
proof -
  assume "val t = 100"
  then have "val t = val (JSNumber 100 0)" by (simp add: val_def)
  then have "alphaValue t = alphaValue (JSNumber 100 0)" by (rule alphaValue_cong)
  also have "\<dots> = 0" by code_simp
  finally show ?thesis .
qed

lemma alpha_table_0:
  "\<forall>n \<in> set [0..20].
     alphaValue (JSNumber n 0) = (if n = 10 \<or> n = 50 then ((100 - n) * 255 + 50) div 100 - 1
                                   else ((100 - n) * 255 + 50) div 100)"
  by code_simp

lemma alpha_table_1:
  "\<forall>n \<in> set [21..40].
     alphaValue (JSNumber n 0) = (if n = 10 \<or> n = 50 then ((100 - n) * 255 + 50) div 100 - 1
                                   else ((100 - n) * 255 + 50) div 100)"
  by code_simp

lemma alpha_table_2:
  "\<forall>n \<in> set [41..60].
     alphaValue (JSNumber n 0) = (if n = 10 \<or> n = 50 then ((100 - n) * 255 + 50) div 100 - 1
                                   else ((100 - n) * 255 + 50) div 100)"
  by code_simp

lemma alpha_table_3:
  "\<forall>n \<in> set [61..80].
     alphaValue (JSNumber n 0) = (if n = 10 \<or> n = 50 then ((100 - n) * 255 + 50) div 100 - 1
                                   else ((100 - n) * 255 + 50) div 100)"
  by code_simp

lemma alpha_table_4:
  "\<forall>n \<in> set [81..100].
     alphaValue (JSNumber n 0) = (if n = 10 \<or> n = 50 then ((100 - n) * 255 + 50) div 100 - 1
                                   else ((100 - n) * 255 + 50) div 100)"
  by code_simp

lemma alpha_table:
  assumes "0 \<le> n" and "n \<le> 100"
  shows "alphaValue (JSNumber n 0) = (if n = 10 \<or> n = 50 then ((100 - n) * 255 + 50) div 100 - 1
                                      else ((100 - n) * 255 + 50) div 100)"
proof -
  from assms have "n \<in> {0..20} \<or> n \<in> {21..40} \<or> n \<in> {41..60} \<or>
      n \<in> {61..80} \<or> n \<in> {81..100}"
    by auto
  then have "n \<in> set [0..20] \<or> n \<in> set [21..40] \<or> n \<in> set [41..60] \<or>
      n \<in> set [61..80] \<or> n \<in> set [81..100]"
    by (simp only: set_upto)
  then show ?thesis
    using alpha_table_0 alpha_table_1 alpha_table_2 alpha_table_3 alpha_table_4 by blast
qed

lemma alphaValue_integer:
  assumes "val t = real_of_int n" and "0 \<le> n" and "n \<le> 100"
  shows "alphaValue t = (if n = 10 \<or> n = 50 then ((100 - n) * 255 + 50) div 100 - 1
                         else ((100 - n) * 255 + 50) div 100)"
proof -
  from assms(1) have "val t = val (JSNumber n 0)" by (simp add: val_def)
  then have "alphaValue t = alphaValue (JSNumber n 0)" by (rule alphaValue_cong)
  then show ?thesis using alpha_table [OF assms(2,3)] by simp
qed

lemma alphaSuffix_examples:
  "alphaSuffix (JSNumber 10 0) = ''e5''" "alphaSuffix (JSNumber 50 0) = ''7f''"
  "alphaSuffix (JSNumber 25 (- 1)) = ''df''" "alphaSuffix (JSNumber 100 0) = ''00''"
  "alphaSuffix (JSNumber 25 2) = ''00''" "alphaSuffix (JSNumber 0 0) = ''ff''"
  by code_simp+


subsection \<open>The backup ring\<close>

lemma createBackup_backups:
  "backups (createBackup now current st) = take 10 (snapshot now current st # backups st)"
  by (simp add: createBackup_def snapshot_def Let_def)

lemma createBackup_configuration [simp]:
  "configuration (createBackup now current st) = configuration st"
  by (simp add: createBackup_def Let_def)

lemma snapshot_createBackup [simp]:
  "snapshot n c (createBackup now current st) = snapshot n c st"
  by (simp add: snapshot_def)

lemma take_append_take: "take n (xs @ take n ys) = take n (xs @ ys)"
  by (simp add: min_def)

lemma createBackups_backups:
  "calls \<noteq> [] \<Longrightarrow>
     backups (createBackups calls st) =
       take 10 (rev (map (\<lambda>(now, current). snapshot now current st) calls) @ backups st)"
proof (induction calls arbitrary: st)
  case Nil
  then show ?case by simp
next
  case (Cons c calls)
  obtain now current where c: "c = (now, current)" by (cases c)
  have step: "createBackups (c # calls) st = createBackups calls (createBackup now current st)"
    by (simp add: createBackups_def c)
  show ?case
  proof (cases "calls = []")
    case True
    then show ?thesis
      by (simp add: step createBackups_def createBackup_backups c)
  next
    case False
    have "backups (createBackups (c # calls) st) =
            take 10 (rev (map (\<lambda>(n, cur). snapshot n cur st) calls)
                     @ take 10 (snapshot now current st # backups st))"
      using Cons.IH [OF False, of "createBackup now current st"]
      by (simp add: step createBackup_backups)
    also have "\<dots> = take 10 (rev (map (\<lambda>(n, cur). snapshot n cur st) calls)
                               @ (snapshot now current st # backups st))"
      by (rule take_append_take)
    finally show ?thesis by (simp add: c)
  qed
qed

lemma createBackups_keep_ten:
  assumes "10 \<le> length calls"
  shows "backups (createBackups calls st) =
           rev (map (\<lambda>(n, c). snapshot n c st) (drop (length calls - 10) calls))"
proof -
  from assms have "calls \<noteq> []" by auto
  then have "backups (createBackups calls st) =
               take 10 (rev (map (\<lambda>(n, c). snapshot n c st) calls) @ backups st)"
    by (rule createBackups_backups)
  also have "\<dots> = take 10 (rev (map (\<lambda>(n, c). snapshot n c st) calls))"
    using assms by simp
  also have "\<dots> = rev (drop (length calls - 10) (map (\<lambda>(n, c). snapshot n c st) calls))"
    by (simp add: take_rev)
  finally show ?thesis
    by (simp add: drop_map)
qed

subsection \<open>The theme store\<close>

lemma findIndex_ge: "- 1 \<le> findIndex P xs"
  by (induction xs) (auto simp: Let_def)

lemma findIndex_none: "findIndex P xs < 0 \<longleftrightarrow> (\<forall>x \<in> set xs. \<not> P x)"
  using findIndex_ge [of P]
  by (induction xs) (auto simp: Let_def)

lemma findIndex_some:
  "0 \<le> findIndex P xs \<Longrightarrow>
     nat (findIndex P xs) < length xs \<and> P (xs ! nat (findIndex P xs)) \<and>
     (\<forall>j < nat (findIndex P xs). \<not> P (xs ! j))"
proof (induction xs)
  case Nil
  then show ?case by simp
next
  case (Cons x xs)
  show ?case
  proof (cases "P x")
    case True
    then show ?thesis by simp
  next
    case False
    with Cons.prems have nonneg: "0 \<le> findIndex P xs"
      by (simp add: Let_def split: if_splits)
    from False nonneg have idx: "findIndex P (x # xs) = findIndex P xs + 1"
      by (simp add: Let_def)
    from nonneg have n: "nat (findIndex P xs + 1) = Suc (nat (findIndex P xs))"
      by simp
    from Cons.IH [OF nonneg] False show ?thesis
      unfolding idx n by (auto simp: less_Suc_eq_0_disj)
  qed
qed

lemma findIndex_append_first:
  "\<forall>x \<in> set xs. \<not> P x \<Longrightarrow> P y \<Longrightarrow> findIndex P (xs @ [y]) = int (length xs)"
  by (induction xs) (auto simp: Let_def)

lemma saveTheme_new:
  assumes "\<forall>t \<in> set (savedThemes st). name t \<noteq> name theme"
  shows "savedThemes (saveTheme nowModified nowCreated theme st) =
           savedThemes st @ [theme\<lparr>modified := nowModified, created := nowCreated\<rparr>]"
proof -
  have "findIndex (\<lambda>t. name t = name theme) (savedThemes st) < 0"
    using assms by (simp add: findIndex_none)
  then show ?thesis
    by (simp add: saveTheme_def Let_def)
qed

lemma saveTheme_existing:
  assumes "0 \<le> findIndex (\<lambda>t. name t = name theme) (savedThemes st)"
  shows "savedThemes (saveTheme nowModified nowCreated theme st) =
           (savedThemes st)
             [nat (findIndex (\<lambda>t. name t = name theme) (savedThemes st)) :=
                theme\<lparr>modified := nowModified\<rparr>]"
  using assms by (simp add: saveTheme_def Let_def)

lemma filter_length_list_update:
  "i < length xs \<Longrightarrow> P (xs ! i) \<Longrightarrow> P y \<Longrightarrow>
     length (filter P (xs[i := y])) = length (filter P xs)"
proof (induction xs arbitrary: i)
  case Nil
  then show ?case by simp
next
  case (Cons x xs)
  then show ?case by (cases i) simp_all
qed

lemma filter_length_pos: "x \<in> set xs \<Longrightarrow> P x \<Longrightarrow> 1 \<le> length (filter P xs)"
  by (induction xs) auto

lemma distinct_map_filter_one:
  "distinct (map f xs) \<Longrightarrow> x \<in> set xs \<Longrightarrow> length (filter (\<lambda>t. f t = f x) xs) = 1"
proof (induction xs)
  case Nil
  then show ?case by simp
next
  case (Cons a xs)
  show ?case
  proof (cases "f a = f x")
    case True
    with Cons.prems have "\<forall>t \<in> set xs. f t \<noteq> f x" by (auto simp: image_iff)
    then have "filter (\<lambda>t. f t = f x) xs = []" by (simp add: filter_empty_conv)
    with True show ?thesis by simp
  next
    case False
    with Cons.prems have "x \<in> set xs" by auto
    with Cons.IH Cons.prems have "length (filter (\<lambda>t. f t = f x) xs) = 1" by simp
    with False show ?thesis by simp
  qed
qed

lemma saveTheme_first_match:
  assumes "\<exists>t \<in> set (savedThemes st). name t = name theme"
  shows "\<exists>i < length (savedThemes st).
           name (savedThemes st ! i) = name theme \<and>
           (\<forall>j < i. name (savedThemes st ! j) \<noteq> name theme) \<and>
           savedThemes (saveTheme nowModified nowCreated theme st) =
             (savedThemes st)[i := theme\<lparr>modified := nowModified\<rparr>]"
proof -
  let ?P = "\<lambda>t. name t = name theme"
  from assms have "\<not> findIndex ?P (savedThemes st) < 0"
    by (simp add: findIndex_none)
  then have nonneg: "0 \<le> findIndex ?P (savedThemes st)" by simp
  from findIndex_some [OF nonneg] saveTheme_existing [OF nonneg, of nowModified nowCreated]
  show ?thesis by blast
qed

lemma saveTheme_names:
  assumes "\<exists>t \<in> set (savedThemes st). name t = name theme"
  shows "map name (savedThemes (saveTheme nowModified nowCreated theme st)) =
           map name (savedThemes st)"
proof -
  from saveTheme_first_match [OF assms, of nowModified nowCreated]
  obtain i where i: "i < length (savedThemes st)" "name (savedThemes st ! i) = name theme"
    and s: "savedThemes (saveTheme nowModified nowCreated theme st) =
              (savedThemes st)[i := theme\<lparr>modified := nowModified\<rparr>]"
    by blast
  have "map name ((savedThemes st)[i := theme\<lparr>modified := nowModified\<rparr>]) =
          (map name (savedThemes st))[i := name theme]"
    by (simp add: map_update)
  also have "\<dots> = map name (savedThemes st)"
    using i by (intro list_update_same_conv [THEN iffD2]) simp_all
  finally show ?thesis by (simp only: s)
qed

lemma saveTheme_count:
  "length (filter (\<lambda>t. name t = name theme)
             (savedThemes (saveTheme nowModified nowCreated theme st))) =
     max 1 (length (filter (\<lambda>t. name t = name theme) (savedThemes st)))"
proof (cases "\<exists>t \<in> set (savedThemes st). name t = name theme")
  case True
  from saveTheme_first_match [OF True, of nowModified nowCreated]
  obtain i where i: "i < length (savedThemes st)" "name (savedThemes st ! i) = name theme"
    and s: "savedThemes (saveTheme nowModified nowCreated theme st) =
              (savedThemes st)[i := theme\<lparr>modified := nowModified\<rparr>]"
    by blast
  have "length (filter (\<lambda>t. name t = name theme)
                  ((savedThemes st)[i := theme\<lparr>modified := nowModified\<rparr>])) =
          length (filter (\<lambda>t. name t = name theme) (savedThemes st))"
    using i by (intro filter_length_list_update) simp_all
  moreover from True obtain x where "x \<in> set (savedThemes st)" "name x = name theme"
    by blast
  then have "1 \<le> length (filter (\<lambda>t. name t = name theme) (savedThemes st))"
    by (rule filter_length_pos [of x _ "\<lambda>t. name t = name theme"])
  ultimately show ?thesis by (simp add: s)
next
  case False
  then have none: "\<forall>t \<in> set (savedThemes st). name t \<noteq> name theme" by simp
  then have "filter (\<lambda>t. name t = name theme) (savedThemes st) = []"
    by (simp add: filter_empty_conv)
  then show ?thesis
    by (simp add: saveTheme_new [OF none])
qed

lemma saveTheme_distinct:
  assumes "distinct (map name (savedThemes st))"
  shows "distinct (map name (savedThemes (saveTheme nowModified nowCreated theme st)))"
proof (cases "\<exists>t \<in> set (savedThemes st). name t = name theme")
  case True
  then show ?thesis using assms by (simp add: saveTheme_names)
next
  case False
  then have none: "\<forall>t \<in> set (savedThemes st). name t \<noteq> name theme" by simp
  then show ?thesis using assms by (auto simp: saveTheme_new [OF none])
qed

lemma saveTheme_twice:
  assumes "name second = name first"
  shows "(if \<exists>t \<in> set (savedThemes st). name t = name first
          then \<exists>i < length (savedThemes st).
                 name (savedThemes st ! i) = name first \<and>
                 (\<forall>j < i. name (savedThemes st ! j) \<noteq> name first) \<and>
                 savedThemes (saveTheme m1 c1 first st) =
                   (savedThemes st)[i := first\<lparr>modified := m1\<rparr>] \<and>
                 savedThemes (saveTheme m2 c2 second (saveTheme m1 c1 first st)) =
                   (savedThemes st)[i := second\<lparr>modified := m2\<rparr>]
          else savedThemes (saveTheme m1 c1 first st) =
                 savedThemes st @ [first\<lparr>modified := m1, created := c1\<rparr>] \<and>
               savedThemes (saveTheme m2 c2 second (saveTheme m1 c1 first st)) =
                 savedThemes st @ [second\<lparr>modified := m2\<rparr>])"
proof (cases "\<exists>t \<in> set (savedThemes st). name t = name first")
  case True
  from saveTheme_first_match [OF True, of m1 c1]
  obtain i where i: "i < length (savedThemes st)" "name (savedThemes st ! i) = name first"
      "\<forall>j < i. name (savedThemes st ! j) \<noteq> name first"
    and s1: "savedThemes (saveTheme m1 c1 first st) =
               (savedThemes st)[i := first\<lparr>modified := m1\<rparr>]"
    by blast
  let ?s1 = "(savedThemes st)[i := first\<lparr>modified := m1\<rparr>]"
  let ?P = "\<lambda>t. name t = name second"
  have at_i: "?P (?s1 ! i)" using i(1) assms by simp
  have before: "\<forall>j < i. \<not> ?P (?s1 ! j)" using i(3) assms by simp
  have "?s1 ! i \<in> set ?s1" using i(1) by (intro nth_mem) simp
  with at_i have "\<not> (\<forall>x \<in> set ?s1. \<not> ?P x)" by blast
  then have "\<not> findIndex ?P ?s1 < 0"
    using findIndex_none [of ?P ?s1] by blast
  then have nonneg: "0 \<le> findIndex ?P ?s1" by simp
  define k where "k = nat (findIndex ?P ?s1)"
  from findIndex_some [OF nonneg]
  have k: "k < length ?s1" "?P (?s1 ! k)" "\<forall>j < k. \<not> ?P (?s1 ! j)"
    unfolding k_def by blast+
  have "k = i"
  proof (rule ccontr)
    assume "k \<noteq> i"
    then consider "k < i" | "i < k" by linarith
    then show False
    proof cases
      case 1
      with before k(2) show False by blast
    next
      case 2
      with k(3) at_i show False by blast
    qed
  qed
  have "savedThemes (saveTheme m2 c2 second (saveTheme m1 c1 first st)) =
          ?s1[k := second\<lparr>modified := m2\<rparr>]"
    unfolding k_def using nonneg by (simp add: saveTheme_existing s1)
  then have "savedThemes (saveTheme m2 c2 second (saveTheme m1 c1 first st)) =
          (savedThemes st)[i := second\<lparr>modified := m2\<rparr>]"
    by (simp add: \<open>k = i\<close>)
  with True i s1 show ?thesis by auto
next
  case False
  then have none: "\<forall>t \<in> set (savedThemes st). name t \<noteq> name first" by simp
  let ?entry = "first\<lparr>modified := m1, created := c1\<rparr>"
  have s1: "savedThemes (saveTheme m1 c1 first st) = savedThemes st @ [?entry]"
    using none by (rule saveTheme_new)
  have idx: "findIndex (\<lambda>t. name t = name second) (savedThemes st @ [?entry]) =
               int (length (savedThemes st))"
    using none assms by (intro findIndex_append_first) simp_all
  have s2: "savedThemes (saveTheme m2 c2 second (saveTheme m1 c1 first st)) =
              savedThemes st @ [second\<lparr>modified := m2\<rparr>]"
    by (simp add: saveTheme_existing s1 idx)
  from False s1 s2 show ?thesis by simp
qed

subsection \<open>Reading the exported YAML text\<close>

lemma splitLines_line: "CHR 0x0A \<notin> set l \<Longrightarrow> splitLines l = [l]"
  by (induction l) auto

lemma splitLines_append:
  "CHR 0x0A \<notin> set l \<Longrightarrow> splitLines (l @ CHR 0x0A # rest) = l # splitLines rest"
  by (induction l) auto

lemma splitLines_joinLines:
  "ls \<noteq> [] \<Longrightarrow> \<forall>l \<in> set ls. CHR 0x0A \<notin> set l \<Longrightarrow> splitLines (joinLines ls) = ls"
proof (induction ls rule: joinLines.induct)
  case 1
  then show ?case by simp
next
  case (2 l)
  then show ?case by (simp add: splitLines_line)
next
  case (3 l v va)
  then show ?case by (simp add: splitLines_append)
qed

lemma quotedScalar_comment: "quotedScalar (CHR ''#'' # rest) = None"
  by (simp add: quotedScalar_def)

lemma quotedScalar_plain:
  assumes "CHR 0x27 \<notin> set line"
  shows "quotedScalar line = None"
proof -
  have "\<forall>x \<in> set line. x \<noteq> CHR 0x27" using assms by auto
  then have "dropWhile (\<lambda>c. c \<noteq> CHR 0x27) line = []"
    by (simp only: dropWhile_eq_Nil_conv)
  then show ?thesis by (simp only: quotedScalar_def list.case if_cancel)
qed

lemma quotedScalar_quoted:
  assumes "CHR 0x27 \<notin> set pre" and "pre \<noteq> []" and "hd pre \<noteq> CHR ''#''" and "CHR 0x27 \<notin> set c"
  shows "quotedScalar (pre @ quoted c) = Some c"
proof -
  have "dropWhile (\<lambda>c. c \<noteq> CHR 0x27) (pre @ quoted c) = CHR 0x27 # c @ [CHR 0x27]"
    using assms(1) by (subst dropWhile_append2) (auto simp: quoted_def)
  moreover have "takeWhile (\<lambda>x. x \<noteq> CHR 0x27) (c @ [CHR 0x27]) = c"
    using assms(4) by (subst takeWhile_append2) auto
  moreover have "hd (pre @ quoted c) \<noteq> CHR ''#''" "pre @ quoted c \<noteq> []"
    using assms(2,3) by simp_all
  ultimately show ?thesis by (simp add: quotedScalar_def)
qed

lemma map_filter_Cons_None: "f x = None \<Longrightarrow> List.map_filter f (x # xs) = List.map_filter f xs"
  by (simp add: List.map_filter_def)

lemma map_filter_Cons_Some: "f x = Some y \<Longrightarrow> List.map_filter f (x # xs) = y # List.map_filter f xs"
  by (simp add: List.map_filter_def)

lemma map_filter_Nil: "List.map_filter f [] = []"
  by (simp add: List.map_filter_def)

lemma quotedScalar_header: "quotedScalar (''# '' @ rest) = None"
  by (simp add: quotedScalar_def)

lemma quotedScalar_structure:
  "quotedScalar ''colors:'' = None" "quotedScalar ''  primary:'' = None"
  "quotedScalar ''  '' = None" "quotedScalar ''  normal:'' = None"
  "quotedScalar ''  bright:'' = None"
  by (simp_all add: quotedScalar_plain)

lemma quotedScalar_colour:
  assumes "CHR 0x27 \<notin> set c"
  shows "quotedScalar (''    background: '' @ quoted c) = Some c"
    and "quotedScalar (''    foreground: '' @ quoted c) = Some c"
    and "quotedScalar (''    black:   '' @ quoted c) = Some c"
    and "quotedScalar (''    red:     '' @ quoted c) = Some c"
    and "quotedScalar (''    green:   '' @ quoted c) = Some c"
    and "quotedScalar (''    yellow:  '' @ quoted c) = Some c"
    and "quotedScalar (''    blue:    '' @ quoted c) = Some c"
    and "quotedScalar (''    magenta: '' @ quoted c) = Some c"
    and "quotedScalar (''    cyan:    '' @ quoted c) = Some c"
    and "quotedScalar (''    white:   '' @ quoted c) = Some c"
  by (rule quotedScalar_quoted; simp add: assms)+


lemma exportToAlacritty_lines:
  "exportToAlacritty theme =
     joinLines
       [''# '' @ name theme @ '' - '' @ stringOr (description theme) ''TermiStyle theme'',
        ''colors:'',
        ''  primary:'',
        ''    background: '' @ quoted (background (colors theme)),
        ''    foreground: '' @ quoted (foreground (colors theme)),
        ''  '',
        ''  normal:'',
        ''    black:   '' @ quoted (ansiBlack (colors theme)),
        ''    red:     '' @ quoted (ansiRed (colors theme)),
        ''    green:   '' @ quoted (ansiGreen (colors theme)),
        ''    yellow:  '' @ quoted (ansiYellow (colors theme)),
        ''    blue:    '' @ quoted (ansiBlue (colors theme)),
        ''    magenta: '' @ quoted (ansiMagenta (colors theme)),
        ''    cyan:    '' @ quoted (ansiCyan (colors theme)),
        ''    white:   '' @ quoted (ansiWhite (colors theme)),
        ''  '',
        ''  bright:'',
        ''    black:   '' @ quoted (ansiBrightBlack (colors theme)),
        ''    red:     '' @ quoted (ansiBrightRed (colors theme)),
        ''    green:   '' @ quoted (ansiBrightGreen (colors theme)),
        ''    yellow:  '' @ quoted (ansiBrightYellow (colors theme)),
        ''    blue:    '' @ quoted (ansiBrightBlue (colors theme)),
        ''    magenta: '' @ quoted (ansiBrightMagenta (colors theme)),
        ''    cyan:    '' @ quoted (ansiBrightCyan (colors theme)),
        ''    white:   '' @ quoted (ansiBrightWhite (colors theme))]"
  unfolding exportToAlacritty_def Let_def by (rule refl)

lemma quotedScalars_exportToAlacritty:
  assumes "plainScalars theme"
  shows "quotedScalars (exportToAlacritty theme) = terminalColorFields theme"
proof -
  from assms have header: "CHR 0x0A \<notin> set (name theme)"
      "CHR 0x0A \<notin> set (stringOr (description theme) ''TermiStyle theme'')"
    and nl: "CHR 0x0A \<notin> set (background (colors theme))"
      "CHR 0x0A \<notin> set (foreground (colors theme))"
      "CHR 0x0A \<notin> set (ansiBlack (colors theme))"
      "CHR 0x0A \<notin> set (ansiRed (colors theme))"
      "CHR 0x0A \<notin> set (ansiGreen (colors theme))"
      "CHR 0x0A \<notin> set (ansiYellow (colors theme))"
      "CHR 0x0A \<notin> set (ansiBlue (colors theme))"
      "CHR 0x0A \<notin> set (ansiMagenta (colors theme))"
      "CHR 0x0A \<notin> set (ansiCyan (colors theme))"
      "CHR 0x0A \<notin> set (ansiWhite (colors theme))"
      "CHR 0x0A \<notin> set (ansiBrightBlack (colors theme))"
      "CHR 0x0A \<notin> set (ansiBrightRed (colors theme))"
      "CHR 0x0A \<notin> set (ansiBrightGreen (colors theme))"
      "CHR 0x0A \<notin> set (ansiBrightYellow (colors theme))"
      "CHR 0x0A \<notin> set (ansiBrightBlue (colors theme))"
      "CHR 0x0A \<notin> set (ansiBrightMagenta (colors theme))"
      "CHR 0x0A \<notin> set (ansiBrightCyan (colors theme))"
      "CHR 0x0A \<notin> set (ansiBrightWhite (colors theme))"
    and q: "CHR 0x27 \<notin> set (background (colors theme))"
      "CHR 0x27 \<notin> set (foreground (colors theme))"
      "CHR 0x27 \<notin> set (ansiBlack (colors theme))"
      "CHR 0x27 \<notin> set (ansiRed (colors theme))"
      "CHR 0x27 \<notin> set (ansiGreen (colors theme))"
      "CHR 0x27 \<notin> set (ansiYellow (colors theme))"
      "CHR 0x27 \<notin> set (ansiBlue (colors theme))"
      "CHR 0x27 \<notin> set (ansiMagenta (colors theme))"
      "CHR 0x27 \<notin> set (ansiCyan (colors theme))"
      "CHR 0x27 \<notin> set (ansiWhite (colors theme))"
      "CHR 0x27 \<notin> set (ansiBrightBlack (colors theme))"
      "CHR 0x27 \<notin> set (ansiBrightRed (colors theme))"
      "CHR 0x27 \<notin> set (ansiBrightGreen (colors theme))"
      "CHR 0x27 \<notin> set (ansiBrightYellow (colors theme))"
      "CHR 0x27 \<notin> set (ansiBrightBlue (colors theme))"
      "CHR 0x27 \<notin> set (ansiBrightMagenta (colors theme))"
      "CHR 0x27 \<notin> set (ansiBrightCyan (colors theme))"
      "CHR 0x27 \<notin> set (ansiBrightWhite (colors theme))"
    by (simp_all add: plainScalars_def terminalColorFields_def Let_def)
  show ?thesis
    unfolding exportToAlacritty_lines quotedScalars_def
  proof (subst splitLines_joinLines)
    show "[''# '' @ name theme @ '' - '' @ stringOr (description theme) ''TermiStyle theme'',
        ''colors:'',
        ''  primary:'',
        ''    background: '' @ quoted (background (colors theme)),
        ''    foreground: '' @ quoted (foreground (colors theme)),
        ''  '',
        ''  normal:'',
        ''    black:   '' @ quoted (ansiBlack (colors theme)),
        ''    red:     '' @ quoted (ansiRed (colors theme)),
        ''    green:   '' @ quoted (ansiGreen (colors theme)),
        ''    yellow:  '' @ quoted (ansiYellow (colors theme)),
        ''    blue:    '' @ quoted (ansiBlue (colors theme)),
        ''    magenta: '' @ quoted (ansiMagenta (colors theme)),
        ''    cyan:    '' @ quoted (ansiCyan (colors theme)),
        ''    white:   '' @ quoted (ansiWhite (colors theme)),
        ''  '',
        ''  bright:'',
        ''    black:   '' @ quoted (ansiBrightBlack (colors theme)),
        ''    red:     '' @ quoted (ansiBrightRed (colors theme)),
        ''    green:   '' @ quoted (ansiBrightGreen (colors theme)),
        ''    yellow:  '' @ quoted (ansiBrightYellow (colors theme)),
        ''    blue:    '' @ quoted (ansiBrightBlue (colors theme)),
        ''    magenta: '' @ quoted (ansiBrightMagenta (colors theme)),
        ''    cyan:    '' @ quoted (ansiBrightCyan (colors theme)),
        ''    white:   '' @ quoted (ansiBrightWhite (colors theme))] \<noteq> []"
      by (rule list.distinct)
  next
    show "\<forall>l \<in> set
       [''# '' @ name theme @ '' - '' @ stringOr (description theme) ''TermiStyle theme'',
        ''colors:'',
        ''  primary:'',
        ''    background: '' @ quoted (background (colors theme)),
        ''    foreground: '' @ quoted (foreground (colors theme)),
        ''  '',
        ''  normal:'',
        ''    black:   '' @ quoted (ansiBlack (colors theme)),
        ''    red:     '' @ quoted (ansiRed (colors theme)),
        ''    green:   '' @ quoted (ansiGreen (colors theme)),
        ''    yellow:  '' @ quoted (ansiYellow (colors theme)),
        ''    blue:    '' @ quoted (ansiBlue (colors theme)),
        ''    magenta: '' @ quoted (ansiMagenta (colors theme)),
        ''    cyan:    '' @ quoted (ansiCyan (colors theme)),
        ''    white:   '' @ quoted (ansiWhite (colors theme)),
        ''  '',
        ''  bright:'',
        ''    black:   '' @ quoted (ansiBrightBlack (colors theme)),
        ''    red:     '' @ quoted (ansiBrightRed (colors theme)),
        ''    green:   '' @ quoted (ansiBrightGreen (colors theme)),
        ''    yellow:  '' @ quoted (ansiBrightYellow (colors theme)),
        ''    blue:    '' @ quoted (ansiBrightBlue (colors theme)),
        ''    magenta: '' @ quoted (ansiBrightMagenta (colors theme)),
        ''    cyan:    '' @ quoted (ansiBrightCyan (colors theme)),
        ''    white:   '' @ quoted (ansiBrightWhite (colors theme))]. CHR 0x0A \<notin> set l"
      using header nl by (simp add: quoted_def)
  next
    show "List.map_filter quotedScalar
       [''# '' @ name theme @ '' - '' @ stringOr (description theme) ''TermiStyle theme'',
        ''colors:'',
        ''  primary:'',
        ''    background: '' @ quoted (background (colors theme)),
        ''    foreground: '' @ quoted (foreground (colors theme)),
        ''  '',
        ''  normal:'',
        ''    black:   '' @ quoted (ansiBlack (colors theme)),
        ''    red:     '' @ quoted (ansiRed (colors theme)),
        ''    green:   '' @ quoted (ansiGreen (colors theme)),
        ''    yellow:  '' @ quoted (ansiYellow (colors theme)),
        ''    blue:    '' @ quoted (ansiBlue (colors theme)),
        ''    magenta: '' @ quoted (ansiMagenta (colors theme)),
        ''    cyan:    '' @ quoted (ansiCyan (colors theme)),
        ''    white:   '' @ quoted (ansiWhite (colors theme)),
        ''  '',
        ''  bright:'',
        ''    black:   '' @ quoted (ansiBrightBlack (colors theme)),
        ''    red:     '' @ quoted (ansiBrightRed (colors theme)),
        ''    green:   '' @ quoted (ansiBrightGreen (colors theme)),
        ''    yellow:  '' @ quoted (ansiBrightYellow (colors theme)),
        ''    blue:    '' @ quoted (ansiBrightBlue (colors theme)),
        ''    magenta: '' @ quoted (ansiBrightMagenta (colors theme)),
        ''    cyan:    '' @ quoted (ansiBrightCyan (colors theme)),
        ''    white:   '' @ quoted (ansiBrightWhite (colors theme))] =
      terminalColorFields theme"
      unfolding terminalColorFields_def Let_def
      by (simp only: map_filter_Cons_None map_filter_Cons_Some map_filter_Nil
          quotedScalar_header quotedScalar_structure
          q [THEN quotedScalar_colour(1)] q [THEN quotedScalar_colour(2)]
          q [THEN quotedScalar_colour(3)] q [THEN quotedScalar_colour(4)]
          q [THEN quotedScalar_colour(5)] q [THEN quotedScalar_colour(6)]
          q [THEN quotedScalar_colour(7)] q [THEN quotedScalar_colour(8)]
          q [THEN quotedScalar_colour(9)] q [THEN quotedScalar_colour(10)])
  qed
qed

lemma exportToAlacritty_hash: "\<exists>rest. exportToAlacritty theme = CHR ''#'' # rest"
  by (simp add: exportToAlacritty_def Let_def)

lemma JSON_parse_hash: "JSON_parse grammar (CHR ''#'' # rest) = None"
  by (simp add: JSON_parse_def jsonWhitespace_def startsJsonValue_def)

lemma JSON_parse_exportToAlacritty: "JSON_parse grammar (exportToAlacritty theme) = None"
proof -
  from exportToAlacritty_hash obtain rest where "exportToAlacritty theme = CHR ''#'' # rest"
    by blast
  then show ?thesis by (simp only: JSON_parse_hash)
qed

lemma importTheme_unsupported:
  assumes "file_extension f \<noteq> ''.termistyle''"
    and "file_extension f \<noteq> ''.code-terminal-theme''"
    and "file_extension f \<noteq> ''.json''"
  shows "importTheme grammar nowCreated nowModified f =
           Inl (UnsupportedFileFormat (file_extension f))"
  using assms by (simp add: importTheme_def Let_def)

lemma importFromJSON_accepts:
  assumes "JSON_parse grammar (file_content f) = Some j" and "j \<noteq> JNull"
  shows "\<not> isl (importFromJSON grammar nowCreated nowModified f)"
  using assms by (cases j) (simp_all add: importFromJSON_def)

lemma importFromTermiStyle_accepts:
  assumes "JSON_parse grammar (file_content f) = Some j"
  shows "\<not> isl (importFromTermiStyle grammar f)"
  using assms by (simp add: importFromTermiStyle_def)

lemma importTheme_accepts:
  assumes "JSON_parse grammar (file_content f) = Some j" and "j \<noteq> JNull"
  shows "\<not> isl (importTheme grammar nowCreated nowModified f) \<longleftrightarrow>
           file_extension f \<in> {''.termistyle'', ''.code-terminal-theme'', ''.json''}"
proof (cases "file_extension f \<in> {''.termistyle'', ''.code-terminal-theme'', ''.json''}")
  case True
  have "\<not> isl (importFromJSON grammar nowCreated nowModified f)"
    using assms by (rule importFromJSON_accepts)
  moreover have "\<not> isl (importFromTermiStyle grammar f)"
    using assms(1) by (rule importFromTermiStyle_accepts)
  ultimately have "\<not> isl (importTheme grammar nowCreated nowModified f)"
    using True by (auto simp: importTheme_def Let_def)
  with True show ?thesis by simp
next
  case False
  then have "importTheme grammar nowCreated nowModified f =
               Inl (UnsupportedFileFormat (file_extension f))"
    by (intro importTheme_unsupported) auto
  with False show ?thesis by simp
qed

lemma importTheme_exported:
  assumes "file_content f = exportToAlacritty theme"
  shows "importTheme grammar nowCreated nowModified f =
           Inl (if file_extension f = ''.termistyle'' \<or> file_extension f = ''.code-terminal-theme''
                then InvalidTermiStyleFile
                else if file_extension f = ''.json'' then InvalidJSONFile
                else UnsupportedFileFormat (file_extension f))"
  by (simp add: importTheme_def importFromTermiStyle_def importFromJSON_def Let_def assms
      JSON_parse_exportToAlacritty)

subsection \<open>What one apply writes\<close>

lemma terminalColors_keys: "map fst (terminalColors theme) = terminalColorKeys"
  by (simp add: terminalColors_def terminalColorKeys_def)

lemma terminalColorKeys_distinct: "distinct terminalColorKeys"
  by (simp add: terminalColorKeys_def)

lemma terminalColorKeys_card: "card (set terminalColorKeys) = 22"
  using distinct_card [OF terminalColorKeys_distinct] by (simp add: terminalColorKeys_def)

lemma terminalColorKeys_no_editor_prefix: "\<forall>k \<in> set terminalColorKeys. \<not> hasEditorPrefix k"
  by (simp add: terminalColorKeys_def hasEditorPrefix_def startsWith_def)

lemma terminalColorKeys_no_tab: "set terminalColorKeys \<inter> set terminalTabKeys = {}"
  by (simp add: terminalColorKeys_def terminalTabKeys_def)

lemma terminalColors_key_set: "fst ` set (terminalColors theme) = set terminalColorKeys"
  using arg_cong [OF terminalColors_keys [of theme], of set] by simp

lemma terminalKeys_written: "set terminalColorKeys \<subseteq> fst ` set (colorWrites theme)"
  using terminalColors_key_set [of theme]
  by (auto simp: colorWrites_def)

lemma terminal_only_writes:
  assumes "\<not> applyToEditor (integration theme)" "\<not> applyToWorkbench (integration theme)"
  shows "fst ` set (colorWrites theme) = set terminalColorKeys"
proof -
  have "''terminal.background'' \<in> set terminalColorKeys"
    by (simp add: terminalColorKeys_def)
  with assms terminalColors_key_set [of theme] show ?thesis
    by (auto simp: colorWrites_def)
qed

lemma terminal_background_written:
  "object_assign m (colorWrites theme) ''terminal.background'' =
     Some (Some (if hasCustomCss theme \<and> positive (transparency (effects theme))
                 then background (colors theme) @ alphaSuffix (transparency (effects theme))
                 else background (colors theme)))"
proof -
  have tc: "map_of (rev (terminalColors theme)) ''terminal.background'' =
              Some (Some (background (colors theme)))"
    by (simp add: terminalColors_def)
  have "object_assign m' (terminalColors theme) ''terminal.background'' =
          Some (Some (background (colors theme)))" for m'
    by (simp add: object_assign_map_add tc)
  then show ?thesis
    by (simp add: colorWrites_def object_assign_append)
       (simp add: object_assign_def)
qed

lemma merged_terminal_background:
  "mergedColorCustomizations theme m ''terminal.background'' =
     Some (Some (background (colors theme)))"
proof -
  have "map_of (rev (terminalColors theme)) ''terminal.background'' =
          Some (Some (background (colors theme)))"
    by (simp add: terminalColors_def)
  then show ?thesis
    by (simp add: mergedColorCustomizations_def object_assign_map_add)
qed

lemma applyTheme_trace_head:
  "applyTheme_trace theme cfg =
     (''workbench.colorTheme'', VUndefined) # tl (applyTheme_trace theme cfg)"
  by (simp add: applyTheme_trace_def applyTheme_updates_def Let_def)

lemma applyTheme_trace_tail_keys:
  "''workbench.colorTheme'' \<notin> fst ` set (tl (applyTheme_trace theme cfg))"
  by (auto simp: applyTheme_trace_def applyTheme_updates_def Let_def tokenUpdates_def
      applyCustomEffects_updates_def)

lemma applyTheme_trace_writes_colors:
  "(''workbench.colorCustomizations'',
    VColors (mergedColorCustomizations theme (getColorCustomizations cfg)))
     \<in> set (tl (applyTheme_trace theme cfg))"
  by (simp add: applyTheme_trace_def applyTheme_updates_def Let_def)

lemma applyTheme_config_colorTheme:
  "applyTheme_config theme cfg ''workbench.colorTheme'' = VUndefined"
proof -
  have "map_of (rev (tl (applyTheme_trace theme cfg))) ''workbench.colorTheme'' = None"
    using applyTheme_trace_tail_keys [of theme cfg]
    by (simp add: map_of_eq_None_iff)
  then show ?thesis
    by (subst applyTheme_config_def, subst applyTheme_trace_head)
       (simp add: run_updates_lookup map_add_def)
qed

lemma applyTheme_config_discrete:
  "applyTheme_config theme cfg ''terminal.integrated.fontFamily'' = VString (font_family (font theme))"
  "applyTheme_config theme cfg ''terminal.integrated.fontSize'' = VNumber (font_size (font theme))"
  "applyTheme_config theme cfg ''terminal.integrated.fontWeight'' = VWeight (font_weight (font theme))"
  "applyTheme_config theme cfg ''terminal.integrated.lineHeight'' =
     VNumber (font_lineHeight (font theme))"
  "applyTheme_config theme cfg ''terminal.integrated.cursorStyle'' =
     VCursorStyle (cursor_style (cursor theme))"
  "applyTheme_config theme cfg ''terminal.integrated.cursorBlinking'' =
     VBool (cursor_blinking (cursor theme))"
  by (simp_all add: applyTheme_config_def applyTheme_trace_def applyTheme_updates_def Let_def
      tokenUpdates_def applyCustomEffects_updates_def run_updates_lookup)

subsection \<open>The terminal flag is never read\<close>

lemma flag_hasCustomCss:
  "hasCustomCss (theme\<lparr>integration := (integration theme)\<lparr>applyToTerminal := b\<rparr>\<rparr>) =
     hasCustomCss theme"
  by (simp add: hasCustomCss_def)

lemma flag_terminalColors:
  "terminalColors (theme\<lparr>integration := (integration theme)\<lparr>applyToTerminal := b\<rparr>\<rparr>) =
     terminalColors theme"
  by (simp add: terminalColors_def)

lemma flag_editorIntegration:
  "editorIntegration (theme\<lparr>integration := (integration theme)\<lparr>applyToTerminal := b\<rparr>\<rparr>) =
     editorIntegration theme"
  by (auto simp: editorIntegration_def basicEditorColors_def fun_eq_iff)

lemma flag_workbenchIntegration:
  "workbenchIntegration (theme\<lparr>integration := (integration theme)\<lparr>applyToTerminal := b\<rparr>\<rparr>) =
     workbenchIntegration theme"
  by (auto simp: workbenchIntegration_def basicWorkbenchColors_def fun_eq_iff)

lemma flag_tokenUpdates:
  "tokenUpdates (theme\<lparr>integration := (integration theme)\<lparr>applyToTerminal := b\<rparr>\<rparr>) =
     tokenUpdates theme"
  by (auto simp: tokenUpdates_def)

lemma flag_applyTheme_updates:
  "applyTheme_updates (theme\<lparr>integration := (integration theme)\<lparr>applyToTerminal := b\<rparr>\<rparr>) =
     applyTheme_updates theme"
  by (simp add: applyTheme_updates_def mergedColorCustomizations_def flag_terminalColors
      flag_editorIntegration flag_workbenchIntegration flag_tokenUpdates fun_eq_iff)

lemma flag_applyCustomEffects_updates:
  "applyCustomEffects_updates (theme\<lparr>integration := (integration theme)\<lparr>applyToTerminal := b\<rparr>\<rparr>) =
     applyCustomEffects_updates theme"
  by (simp add: applyCustomEffects_updates_def fun_eq_iff)

lemma flag_applyTheme_trace:
  "applyTheme_trace (theme\<lparr>integration := (integration theme)\<lparr>applyToTerminal := b\<rparr>\<rparr>) =
     applyTheme_trace theme"
  by (simp add: applyTheme_trace_def flag_applyTheme_updates flag_applyCustomEffects_updates
      flag_hasCustomCss fun_eq_iff Let_def)

subsection \<open>Time-based selection\<close>

text \<open>
  C5. For hours and configuration values in 0..23 the light theme is chosen exactly on the
  half-open interval from lightHour (inclusive) to darkHour (exclusive); with 6 and 18 the
  hours 5, 6, 17, 18 give dark, light, light, dark; and when lightHour is not below darkHour
  the dark theme is chosen at every hour.
\<close>

theorem C5_time_based_selection:
  assumes "0 \<le> lightHour cfg" "lightHour cfg \<le> 23" "0 \<le> darkHour cfg" "darkHour cfg \<le> 23"
    and "0 \<le> h" "h \<le> 23"
  shows "(shouldUseLightTheme cfg h \<longleftrightarrow> (lightHour cfg \<le> h \<and> h < darkHour cfg)) \<and>
         timeBasedThemeName cfg h =
           (if lightHour cfg \<le> h \<and> h < darkHour cfg then lightTheme cfg else darkTheme cfg) \<and>
         (lightHour cfg \<ge> darkHour cfg \<longrightarrow>
            \<not> shouldUseLightTheme cfg h \<and> timeBasedThemeName cfg h = darkTheme cfg) \<and>
         (lightHour cfg = 6 \<and> darkHour cfg = 18 \<longrightarrow>
            timeBasedThemeName cfg 5 = darkTheme cfg \<and> timeBasedThemeName cfg 6 = lightTheme cfg \<and>
            timeBasedThemeName cfg 17 = lightTheme cfg \<and> timeBasedThemeName cfg 18 = darkTheme cfg)"
  by (auto simp: shouldUseLightTheme_def timeBasedThemeName_def)

theorem C5_time_based_selection_witness:
  "shouldUseLightTheme defaultSchedule 17 \<and>
   timeBasedThemeName defaultSchedule 17 = ''Day'' \<and>
   timeBasedThemeName defaultSchedule 5 = ''Night'' \<and>
   timeBasedThemeName defaultSchedule 6 = ''Day'' \<and>
   timeBasedThemeName defaultSchedule 18 = ''Night'' \<and>
   \<not> shouldUseLightTheme (defaultSchedule\<lparr>lightHour := 18, darkHour := 6\<rparr>) 12 \<and>
   timeBasedThemeName (defaultSchedule\<lparr>lightHour := 18, darkHour := 6\<rparr>) 12 = ''Night''"
  using C5_time_based_selection [of defaultSchedule 17]
    C5_time_based_selection [of "defaultSchedule\<lparr>lightHour := 18, darkHour := 6\<rparr>" 12]
  by (simp add: defaultSchedule_def)

subsection \<open>Applying a theme: the colour map\<close>

text \<open>
  C4. Applying the same theme document a second time leaves the colour map as the first
  application produced it: no key and no value accumulates.
\<close>

theorem C4_apply_idempotent_on_color_map:
  "getColorCustomizations
     (configuration (applyTheme now2 current2 theme (applyTheme now1 current1 theme st))) =
   getColorCustomizations (configuration (applyTheme now1 current1 theme st)) \<and>
   getColorCustomizations (applyTheme_config theme (applyTheme_config theme cfg)) =
   getColorCustomizations (applyTheme_config theme cfg)"
  by (simp add: applyTheme_configuration applyTheme_config_colors object_assign_idem)

text \<open>
  C8. Apply merges into the persisted colour map: a key that is not among the keys the
  apply assigns for this document keeps the value it had, and the keys of the new map are
  the old keys together with the assigned ones.
\<close>

theorem C8_apply_preserves_unrelated_keys:
  assumes "k \<notin> fst ` set (colorWrites theme)"
  shows "getColorCustomizations (configuration (applyTheme now current theme st)) k =
           getColorCustomizations (configuration st) k \<and>
         dom (getColorCustomizations (configuration (applyTheme now current theme st))) =
           dom (getColorCustomizations (configuration st)) \<union> fst ` set (colorWrites theme)"
  using assms
  by (simp add: applyTheme_configuration applyTheme_config_colors object_assign_other
      dom_object_assign)

theorem C8_apply_preserves_unrelated_keys_witness:
  "getColorCustomizations
     (configuration (applyTheme ''2024-11-15T10:30:00.000Z'' None neonGlowEverywhere customisedState))
     ''gitDecoration.addedResourceForeground'' = Some (Some ''#81b88b'')"
proof -
  have "''gitDecoration.addedResourceForeground'' \<notin> fst ` set (colorWrites neonGlowEverywhere)"
    by (simp add: colorWrites_def positive_def neonGlowEverywhere_def neonGlow_def hasCustomCss_def
        editorColors_def terminalColors_def)
  from C8_apply_preserves_unrelated_keys [OF this, of "''2024-11-15T10:30:00.000Z''" None customisedState]
  show ?thesis
    by (simp add: customisedState_def emptyState_def getColorCustomizations_def)
qed

subsection \<open>Applying a theme: the base colour theme and the terminal flag\<close>

text \<open>
  C9. Every apply begins by unsetting the host's base colour theme
  (\<^verbatim>\<open>workbench.colorTheme\<close>): it is the first configuration update, the colour
  customisations are written after it, nothing later sets it again, and the same holds when
  the scheduler applies a stored theme by name.
\<close>

theorem C9_apply_clears_base_theme:
  "(\<exists>rest m. applyTheme_trace theme cfg = (''workbench.colorTheme'', VUndefined) # rest \<and>
      (''workbench.colorCustomizations'', VColors m) \<in> set rest \<and>
      ''workbench.colorTheme'' \<notin> fst ` set rest) \<and>
   configuration (applyTheme now current theme st) ''workbench.colorTheme'' = VUndefined \<and>
   (themeName \<noteq> [] \<and> find (\<lambda>t. name t = themeName) (savedThemes st) = Some theme \<longrightarrow>
      configuration (applyThemeByName now current themeName st) ''workbench.colorTheme'' =
        VUndefined)"
proof (intro conjI impI)
  show "\<exists>rest m. applyTheme_trace theme cfg = (''workbench.colorTheme'', VUndefined) # rest \<and>
      (''workbench.colorCustomizations'', VColors m) \<in> set rest \<and>
      ''workbench.colorTheme'' \<notin> fst ` set rest"
    using applyTheme_trace_head [of theme cfg] applyTheme_trace_writes_colors [of theme cfg]
      applyTheme_trace_tail_keys [of theme cfg]
    by blast
next
  show "configuration (applyTheme now current theme st) ''workbench.colorTheme'' = VUndefined"
    by (simp add: applyTheme_configuration applyTheme_config_colorTheme)
next
  assume "themeName \<noteq> [] \<and> find (\<lambda>t. name t = themeName) (savedThemes st) = Some theme"
  then show "configuration (applyThemeByName now current themeName st) ''workbench.colorTheme'' =
      VUndefined"
    by (simp add: applyThemeByName_def applyTheme_configuration applyTheme_config_colorTheme)
qed

theorem C9_apply_clears_base_theme_witness:
  "configuration darkPlusState ''workbench.colorTheme'' = VString ''Default Dark+'' \<and>
   configuration (applyThemeByName ''10:00'' None ''Neon Glow'' darkPlusState)
     ''workbench.colorTheme'' = VUndefined"
  using C9_apply_clears_base_theme [of neonGlow "\<lambda>k. VUndefined" "''10:00''" None darkPlusState
      "''Neon Glow''"]
  by (simp add: darkPlusState_def emptyState_def neonGlow_def)

text \<open>
  C10. Apply never reads \<^verbatim>\<open>integration.applyToTerminal\<close>: with the flag false the
  configuration updates are, one by one, those made with the flag true, so the terminal
  colour keys and the font and cursor settings are written all the same.
\<close>

theorem C10_applyToTerminal_ignored:
  "applyTheme_trace (theme\<lparr>integration := (integration theme)\<lparr>applyToTerminal := False\<rparr>\<rparr>) cfg =
   applyTheme_trace (theme\<lparr>integration := (integration theme)\<lparr>applyToTerminal := True\<rparr>\<rparr>) cfg \<and>
   applyTheme_config (theme\<lparr>integration := (integration theme)\<lparr>applyToTerminal := False\<rparr>\<rparr>) cfg =
   applyTheme_config (theme\<lparr>integration := (integration theme)\<lparr>applyToTerminal := True\<rparr>\<rparr>) cfg \<and>
   set terminalColorKeys \<subseteq>
     dom (getColorCustomizations
           (applyTheme_config
             (theme\<lparr>integration := (integration theme)\<lparr>applyToTerminal := False\<rparr>\<rparr>) cfg)) \<and>
   map (applyTheme_config (theme\<lparr>integration := (integration theme)\<lparr>applyToTerminal := False\<rparr>\<rparr>) cfg)
     [''terminal.integrated.fontFamily'', ''terminal.integrated.fontSize'',
      ''terminal.integrated.fontWeight'', ''terminal.integrated.lineHeight'',
      ''terminal.integrated.cursorStyle'', ''terminal.integrated.cursorBlinking''] =
     [VString (font_family (font theme)), VNumber (font_size (font theme)),
      VWeight (font_weight (font theme)), VNumber (font_lineHeight (font theme)),
      VCursorStyle (cursor_style (cursor theme)), VBool (cursor_blinking (cursor theme))]"
proof -
  let ?off = "theme\<lparr>integration := (integration theme)\<lparr>applyToTerminal := False\<rparr>\<rparr>"
  have keys: "set terminalColorKeys \<subseteq> dom (getColorCustomizations (applyTheme_config ?off cfg))"
    using terminalKeys_written [of ?off]
    by (auto simp: applyTheme_config_colors dom_object_assign)
  have config: "applyTheme_config ?off = applyTheme_config theme"
    by (simp add: applyTheme_config_def flag_applyTheme_trace fun_eq_iff)
  show ?thesis
    using keys
    by (simp add: flag_applyTheme_trace applyTheme_config_def [abs_def])
       (simp add: applyTheme_config_def [symmetric] applyTheme_config_discrete)
qed

subsection \<open>The backup ring\<close>

text \<open>
  C7. Every push puts the new snapshot at the front and the ring never holds more than ten
  entries; after ten or more pushes in sequence (fifteen, say) the ring holds exactly the
  ten most recent snapshots, most recent first, whatever it held before.
\<close>

theorem C7_backup_ring_bounded:
  "backups (createBackup now current st) = take 10 (snapshot now current st # backups st) \<and>
   hd (backups (createBackup now current st)) = snapshot now current st \<and>
   length (backups (createBackup now current st)) \<le> 10 \<and>
   (10 \<le> length calls \<longrightarrow>
      backups (createBackups calls st) =
        rev (map (\<lambda>(n, c). snapshot n c st) (drop (length calls - 10) calls))) \<and>
   (length calls = 15 \<longrightarrow>
      backups (createBackups calls st) = rev (map (\<lambda>(n, c). snapshot n c st) (drop 5 calls)) \<and>
      length (backups (createBackups calls st)) = 10)"
  using createBackups_keep_ten [of calls st]
  by (auto simp: createBackup_backups)

theorem C7_backup_ring_bounded_witness:
  "length fifteenCalls = 15 \<and>
   map backup_timestamp (backups (createBackups fifteenCalls emptyState)) =
     [''10:14'', ''10:13'', ''10:12'', ''10:11'', ''10:10'',
      ''10:09'', ''10:08'', ''10:07'', ''10:06'', ''10:05'']"
  using C7_backup_ring_bounded [of "''10:00''" None emptyState fifteenCalls]
  by (simp add: fifteenCalls_def snapshot_def)

subsection \<open>The theme store\<close>

text \<open>
  C6. Two saves under one name, on any store. When the store has an entry of that name,
  both saves overwrite the first such entry where it stands: the list after each save is
  the list before with that one position replaced by the saved document, its modified time
  set to the save's clock read. When the store has none, the first save appends the
  document, with created and modified set to its clock reads, and the second save
  overwrites that last position. Either way the second save changes neither the length of
  the list nor the name at any position, the number of entries of that name is what it was
  before the first save, or one when there was none, and a store whose names are distinct
  keeps them distinct and holds exactly one entry of the name. The entry's created time
  after the second save is the one the second document carries: the save neither stamps
  it again nor copies it from the replaced entry.
\<close>

theorem C6_save_upsert:
  assumes "name second = name first"
  shows "(let s0 = savedThemes st;
              s1 = savedThemes (saveTheme m1 c1 first st);
              s2 = savedThemes (saveTheme m2 c2 second (saveTheme m1 c1 first st));
              named = (\<lambda>t. name t = name first)
          in (if \<exists>t \<in> set s0. named t
              then \<exists>i < length s0.
                     named (s0 ! i) \<and> (\<forall>j < i. \<not> named (s0 ! j)) \<and>
                     s1 = s0[i := first\<lparr>modified := m1\<rparr>] \<and>
                     s2 = s0[i := second\<lparr>modified := m2\<rparr>]
              else s1 = s0 @ [first\<lparr>modified := m1, created := c1\<rparr>] \<and>
                   s2 = s0 @ [second\<lparr>modified := m2\<rparr>])
             \<and> length s2 = length s1
             \<and> map name s2 = map name s1
             \<and> length (filter named s2) = max 1 (length (filter named s0))
             \<and> (distinct (map name s0) \<longrightarrow>
                  distinct (map name s2) \<and> length (filter named s2) = 1))"
proof -
  let ?st1 = "saveTheme m1 c1 first st"
  let ?named = "\<lambda>t. name t = name first"
  have shape: "if \<exists>t \<in> set (savedThemes st). name t = name first
          then \<exists>i < length (savedThemes st).
                 name (savedThemes st ! i) = name first \<and>
                 (\<forall>j < i. name (savedThemes st ! j) \<noteq> name first) \<and>
                 savedThemes (saveTheme m1 c1 first st) =
                   (savedThemes st)[i := first\<lparr>modified := m1\<rparr>] \<and>
                 savedThemes (saveTheme m2 c2 second (saveTheme m1 c1 first st)) =
                   (savedThemes st)[i := second\<lparr>modified := m2\<rparr>]
          else savedThemes (saveTheme m1 c1 first st) =
                 savedThemes st @ [first\<lparr>modified := m1, created := c1\<rparr>] \<and>
               savedThemes (saveTheme m2 c2 second (saveTheme m1 c1 first st)) =
                 savedThemes st @ [second\<lparr>modified := m2\<rparr>]"
    using assms by (rule saveTheme_twice)
  have c1: "length (filter ?named (savedThemes ?st1)) =
              max 1 (length (filter ?named (savedThemes st)))"
    by (rule saveTheme_count)
  have "length (filter (\<lambda>t. name t = name second) (savedThemes (saveTheme m2 c2 second ?st1))) =
          max 1 (length (filter (\<lambda>t. name t = name second) (savedThemes ?st1)))"
    by (rule saveTheme_count)
  with c1 have count: "length (filter ?named (savedThemes (saveTheme m2 c2 second ?st1))) =
                         max 1 (length (filter ?named (savedThemes st)))"
    by (simp add: assms)
  have "1 \<le> length (filter ?named (savedThemes ?st1))"
    by (simp add: c1)
  then have "filter ?named (savedThemes ?st1) \<noteq> []" by auto
  then have ex1: "\<exists>t \<in> set (savedThemes ?st1). name t = name second"
    by (auto simp: filter_empty_conv assms)
  have names: "map name (savedThemes (saveTheme m2 c2 second ?st1)) = map name (savedThemes ?st1)"
    using ex1 by (rule saveTheme_names)
  then have len: "length (savedThemes (saveTheme m2 c2 second ?st1)) = length (savedThemes ?st1)"
    by (rule map_eq_imp_length_eq)
  have dist: "distinct (map name (savedThemes st)) \<longrightarrow>
                distinct (map name (savedThemes (saveTheme m2 c2 second ?st1))) \<and>
                length (filter ?named (savedThemes (saveTheme m2 c2 second ?st1))) = 1"
  proof
    assume d: "distinct (map name (savedThemes st))"
    then have d2: "distinct (map name (savedThemes (saveTheme m2 c2 second ?st1)))"
      by (intro saveTheme_distinct)
    have "length (filter ?named (savedThemes st)) \<le> 1"
    proof (cases "\<exists>t \<in> set (savedThemes st). name t = name first")
      case True
      then obtain x where "x \<in> set (savedThemes st)" "name x = name first" by blast
      with distinct_map_filter_one [OF d, of x] show ?thesis by simp
    next
      case False
      then have "filter ?named (savedThemes st) = []" by (simp add: filter_empty_conv)
      then show ?thesis by simp
    qed
    with count d2 show "distinct (map name (savedThemes (saveTheme m2 c2 second ?st1))) \<and>
        length (filter ?named (savedThemes (saveTheme m2 c2 second ?st1))) = 1"
      by simp
  qed
  from shape len names count dist show ?thesis
    unfolding Let_def by (intro conjI)
qed

theorem C6_save_upsert_witness:
  "name (neonGlow\<lparr>font := (font neonGlow)\<lparr>font_size := 16\<rparr>\<rparr>) = name neonGlow \<and>
   map (\<lambda>t. (name t, created t, modified t, font_size (font t)))
     (savedThemes
       (saveTheme ''2024-11-17T09:00:00.000Z'' ''2024-11-17T09:00:00.001Z''
          (neonGlow\<lparr>font := (font neonGlow)\<lparr>font_size := 16\<rparr>\<rparr>)
          (saveTheme ''2024-11-16T08:00:00.000Z'' ''2024-11-16T08:00:00.001Z'' neonGlow
             twoThemeState))) =
     [(''Neon Glow'', ''2024-11-15T10:30:00.000Z'', ''2024-11-17T09:00:00.000Z'', 16),
      (''Midnight'', ''2024-11-15T10:30:00.000Z'', ''2024-11-15T10:30:00.000Z'', 14)] \<and>
   map (\<lambda>t. (name t, created t, modified t, font_size (font t)))
     (savedThemes
       (saveTheme ''2024-11-17T09:00:00.000Z'' ''2024-11-17T09:00:00.001Z''
          (neonGlow\<lparr>font := (font neonGlow)\<lparr>font_size := 16\<rparr>\<rparr>)
          (saveTheme ''2024-11-16T08:00:00.000Z'' ''2024-11-16T08:00:00.001Z'' neonGlow
             emptyState))) =
     [(''Neon Glow'', ''2024-11-15T10:30:00.000Z'', ''2024-11-17T09:00:00.000Z'', 16)]"
proof -
  let ?second = "neonGlow\<lparr>font := (font neonGlow)\<lparr>font_size := 16\<rparr>\<rparr>"
  have same: "name ?second = name neonGlow" by simp
  have present: "\<exists>t \<in> set (savedThemes twoThemeState). name t = name neonGlow"
    by (simp add: twoThemeState_def emptyState_def)
  have absent: "\<not> (\<exists>t \<in> set (savedThemes emptyState). name t = name neonGlow)"
    by (simp add: emptyState_def)
  from C6_save_upsert [OF same, of twoThemeState "''2024-11-16T08:00:00.000Z''"
      "''2024-11-16T08:00:00.001Z''" "''2024-11-17T09:00:00.000Z''" "''2024-11-17T09:00:00.001Z''",
      unfolded Let_def, THEN conjunct1] present
  obtain i where i: "i < length (savedThemes twoThemeState)"
      "\<forall>j < i. name (savedThemes twoThemeState ! j) \<noteq> name neonGlow"
    and s2: "savedThemes
       (saveTheme ''2024-11-17T09:00:00.000Z'' ''2024-11-17T09:00:00.001Z'' ?second
          (saveTheme ''2024-11-16T08:00:00.000Z'' ''2024-11-16T08:00:00.001Z'' neonGlow
             twoThemeState)) =
       (savedThemes twoThemeState)[i := ?second\<lparr>modified := ''2024-11-17T09:00:00.000Z''\<rparr>]"
    by (simp only: if_True) blast
  have "i = 0"
  proof (rule ccontr)
    assume "i \<noteq> 0"
    then have "0 < i" by simp
    with i(2) have "name (savedThemes twoThemeState ! 0) \<noteq> name neonGlow" by blast
    then show False by (simp add: twoThemeState_def emptyState_def)
  qed
  have two: "map (\<lambda>t. (name t, created t, modified t, font_size (font t)))
       ((savedThemes twoThemeState)[i := ?second\<lparr>modified := ''2024-11-17T09:00:00.000Z''\<rparr>]) =
     [(''Neon Glow'', ''2024-11-15T10:30:00.000Z'', ''2024-11-17T09:00:00.000Z'', 16),
      (''Midnight'', ''2024-11-15T10:30:00.000Z'', ''2024-11-15T10:30:00.000Z'', 14)]"
    unfolding \<open>i = 0\<close> by (simp add: twoThemeState_def emptyState_def neonGlow_def)
  from C6_save_upsert [OF same, of emptyState "''2024-11-16T08:00:00.000Z''"
      "''2024-11-16T08:00:00.001Z''" "''2024-11-17T09:00:00.000Z''" "''2024-11-17T09:00:00.001Z''",
      unfolded Let_def, THEN conjunct1] absent
  have "savedThemes
       (saveTheme ''2024-11-17T09:00:00.000Z'' ''2024-11-17T09:00:00.001Z'' ?second
          (saveTheme ''2024-11-16T08:00:00.000Z'' ''2024-11-16T08:00:00.001Z'' neonGlow
             emptyState)) =
       savedThemes emptyState @ [?second\<lparr>modified := ''2024-11-17T09:00:00.000Z''\<rparr>]"
    by (simp only: if_False)
  then have one: "map (\<lambda>t. (name t, created t, modified t, font_size (font t)))
     (savedThemes
       (saveTheme ''2024-11-17T09:00:00.000Z'' ''2024-11-17T09:00:00.001Z'' ?second
          (saveTheme ''2024-11-16T08:00:00.000Z'' ''2024-11-16T08:00:00.001Z'' neonGlow
             emptyState))) =
     [(''Neon Glow'', ''2024-11-15T10:30:00.000Z'', ''2024-11-17T09:00:00.000Z'', 16)]"
    by (simp add: emptyState_def neonGlow_def)
  from same two one show ?thesis by (simp only: s2 simp_thms)
qed

theorem C6_created_counterexample:
  "map created
     (savedThemes (saveTheme ''2024-11-16T08:00:00.000Z'' ''2024-11-16T08:00:00.001Z'' neonGlow
        emptyState)) = [''2024-11-16T08:00:00.001Z''] \<and>
   map (\<lambda>t. (name t, created t, modified t, font_size (font t)))
     (savedThemes
       (saveTheme ''2024-11-17T09:00:00.000Z'' ''2024-11-17T09:00:00.001Z''
          (neonGlow\<lparr>font := (font neonGlow)\<lparr>font_size := 16\<rparr>\<rparr>)
          (saveTheme ''2024-11-16T08:00:00.000Z'' ''2024-11-16T08:00:00.001Z'' neonGlow
             emptyState))) =
     [(''Neon Glow'', ''2024-11-15T10:30:00.000Z'', ''2024-11-17T09:00:00.000Z'', 16)]"
  by (simp add: saveTheme_def emptyState_def neonGlow_def Let_def)

subsection \<open>Terminal-only apply\<close>

text \<open>
  C2. Applying a document with applyToTerminal true, applyToEditor and applyToWorkbench
  false and no editorTheme onto an empty colour map produces a map with exactly 22 keys:
  terminal background, foreground and selectionBackground, the 16 ANSI slots, the terminal
  border, and the terminal cursor's foreground and background. None of them has an editor
  or workbench prefix, and none of the five terminal tab keys is among them.
\<close>

theorem C2_terminal_only_apply:
  assumes "applyToTerminal (integration theme)"
    and "\<not> applyToEditor (integration theme)"
    and "\<not> applyToWorkbench (integration theme)"
    and "editorTheme theme = None"
    and "getColorCustomizations cfg = Map.empty"
  shows "dom (getColorCustomizations (applyTheme_config theme cfg)) = set terminalColorKeys \<and>
         card (dom (getColorCustomizations (applyTheme_config theme cfg))) = 22 \<and>
         (\<forall>k \<in> dom (getColorCustomizations (applyTheme_config theme cfg)). \<not> hasEditorPrefix k) \<and>
         dom (getColorCustomizations (applyTheme_config theme cfg)) \<inter> set terminalTabKeys = {}"
proof -
  have "dom (getColorCustomizations (applyTheme_config theme cfg)) = set terminalColorKeys"
    using assms
    by (simp add: applyTheme_config_colors dom_object_assign terminal_only_writes)
  then show ?thesis
    using terminalColorKeys_card terminalColorKeys_no_editor_prefix terminalColorKeys_no_tab
    by simp
qed

theorem C2_terminal_only_apply_witness:
  "dom (getColorCustomizations (applyTheme_config neonGlow (\<lambda>k. VUndefined))) =
     set terminalColorKeys \<and>
   getColorCustomizations (applyTheme_config neonGlow (\<lambda>k. VUndefined)) ''terminal.ansiRed'' =
     Some (Some ''#ff0040'')"
proof -
  have "getColorCustomizations (applyTheme_config neonGlow (\<lambda>k. VUndefined))
          ''terminal.ansiRed'' = Some (Some ''#ff0040'')"
    by (simp add: applyTheme_config_colors object_assign_map_add colorWrites_def positive_def
        terminalColors_def hasCustomCss_def neonGlow_def)
  then show ?thesis
    using C2_terminal_only_apply [of neonGlow "\<lambda>k. VUndefined"]
    by (simp add: neonGlow_def getColorCustomizations_def)
qed

theorem C2_twenty_keys_counterexample:
  "applyTheme_config neonGlow (\<lambda>k. VUndefined) ''workbench.colorCustomizations'' \<noteq> VUndefined \<and>
   card (dom (getColorCustomizations (applyTheme_config neonGlow (\<lambda>k. VUndefined)))) = 22 \<and>
   getColorCustomizations (applyTheme_config neonGlow (\<lambda>k. VUndefined))
     ''terminalCursor.foreground'' = Some (Some ''#00ff41'') \<and>
   getColorCustomizations (applyTheme_config neonGlow (\<lambda>k. VUndefined))
     ''terminal.tab.activeForeground'' = None"
proof -
  have writes: "fst ` set (colorWrites neonGlow) = set terminalColorKeys"
    by (rule terminal_only_writes) (simp_all add: neonGlow_def)
  have empty: "getColorCustomizations (\<lambda>k. VUndefined) = Map.empty"
    by (simp add: getColorCustomizations_def)
  have "dom (getColorCustomizations (applyTheme_config neonGlow (\<lambda>k. VUndefined))) =
          set terminalColorKeys"
    by (simp add: applyTheme_config_colors dom_object_assign writes empty)
  moreover have "getColorCustomizations (applyTheme_config neonGlow (\<lambda>k. VUndefined))
      ''terminalCursor.foreground'' = Some (Some ''#00ff41'')"
    by (simp add: applyTheme_config_colors object_assign_map_add colorWrites_def positive_def
        terminalColors_def hasCustomCss_def neonGlow_def)
  moreover have "getColorCustomizations (applyTheme_config neonGlow (\<lambda>k. VUndefined))
      ''terminal.tab.activeForeground'' = None"
    by (simp add: applyTheme_config_colors object_assign_map_add colorWrites_def positive_def
        terminalColors_def hasCustomCss_def neonGlow_def empty)
  moreover have "applyTheme_config neonGlow (\<lambda>k. VUndefined) ''workbench.colorCustomizations''
      \<noteq> VUndefined"
    by (simp add: applyTheme_config_def applyTheme_trace_def applyTheme_updates_def Let_def
        tokenUpdates_def applyCustomEffects_updates_def run_updates_lookup)
  ultimately show ?thesis
    using terminalColorKeys_card by simp
qed

subsection \<open>Transparency\<close>

text \<open>
  C1. For a transparency T that is any binary64 number from 0 to 100, whole or fractional,
  apply first writes the plain background under the terminal background key and then,
  exactly when the document has a non-empty customCss and T is positive, overwrites it with
  the background followed by an alpha suffix; otherwise the key keeps the plain background.
  The suffix is two lower-case hexadecimal digits, those of the integer
  \<^verbatim>\<open>Math.round((100 - T) * 2.55)\<close> as binary64 arithmetic evaluates it. That integer lies
  between 0 and 255 and within 1/2 + 2^-43 of the exact value of (100 - T) * 2.55. For a
  whole T it is the exact value rounded half up, except at T = 10 and T = 50, where the
  product falls just below the tie and the alpha is one less (e5 and 7f). For T = 100 the
  suffix is 00.
\<close>

theorem C1_transparency_alpha:
  assumes "0 \<le> val (transparency (effects theme))"
    and "val (transparency (effects theme)) \<le> 100"
  shows "(let T = transparency (effects theme);
              a = alphaValue T;
              x = (100 - val T) * (255 / 100)
          in getColorCustomizations (run_updates cfg (applyTheme_updates theme cfg))
               ''terminal.background'' = Some (Some (background (colors theme))) \<and>
             getColorCustomizations (applyTheme_config theme cfg) ''terminal.background'' =
               Some (Some (if hasCustomCss theme \<and> 0 < val T
                           then background (colors theme) @ alphaSuffix T
                           else background (colors theme))) \<and>
             alphaSuffix T = [hexDigit (nat a div 16), hexDigit (nat a mod 16)] \<and>
             length (alphaSuffix T) = 2 \<and>
             set (alphaSuffix T) \<subseteq> set ''0123456789abcdef'' \<and>
             0 \<le> a \<and> a \<le> 255 \<and>
             x - 1 / 2 - 1 / 2 ^ 43 < real_of_int a \<and>
             real_of_int a \<le> x + 1 / 2 + 1 / 2 ^ 43 \<and>
             (\<forall>n. val T = real_of_int n \<longrightarrow>
                a = (if n = 10 \<or> n = 50 then ((100 - n) * 255 + 50) div 100 - 1
                     else ((100 - n) * 255 + 50) div 100)) \<and>
             (val T = 100 \<longrightarrow> alphaSuffix T = ''00''))"
proof -
  let ?T = "transparency (effects theme)"
  let ?a = "alphaValue ?T"
  note b = alphaValue_bounds [OF assms]
  note s = alphaSuffix_in_range [OF assms]
  have plain: "getColorCustomizations (run_updates cfg (applyTheme_updates theme cfg))
      ''terminal.background'' = Some (Some (background (colors theme)))"
    by (simp add: applyTheme_updates_getColors merged_terminal_background)
  have final: "getColorCustomizations (applyTheme_config theme cfg) ''terminal.background'' =
      Some (Some (if hasCustomCss theme \<and> 0 < val ?T
                  then background (colors theme) @ alphaSuffix ?T
                  else background (colors theme)))"
    by (simp add: applyTheme_config_colors terminal_background_written positive_val)
  have len: "length (alphaSuffix ?T) = 2"
    unfolding s by simp
  have low: "set (alphaSuffix ?T) \<subseteq> set ''0123456789abcdef''"
    unfolding s using hexDigit_lower [of "nat ?a div 16"] hexDigit_lower [of "nat ?a mod 16"]
    by simp
  have table: "\<forall>n. val ?T = real_of_int n \<longrightarrow>
      ?a = (if n = 10 \<or> n = 50 then ((100 - n) * 255 + 50) div 100 - 1
            else ((100 - n) * 255 + 50) div 100)"
  proof (intro allI impI)
    fix n
    assume v: "val ?T = real_of_int n"
    with assms have n: "0 \<le> n" "n \<le> 100" by simp_all
    from v n show "?a = (if n = 10 \<or> n = 50 then ((100 - n) * 255 + 50) div 100 - 1
                         else ((100 - n) * 255 + 50) div 100)"
      by (rule alphaValue_integer)
  qed
  have clear: "val ?T = 100 \<longrightarrow> alphaSuffix ?T = ''00''"
  proof
    assume "val ?T = 100"
    then have "?a = 0" by (rule alphaValue_hundred)
    then show "alphaSuffix ?T = ''00''"
      unfolding s by (simp add: hexDigit_def)
  qed
  from plain final s len low b(1) b(2) b(4) b(3) table clear show ?thesis
    unfolding Let_def by (intro conjI)
qed

theorem C1_transparency_alpha_witness:
  "hasCustomCss neonGlow \<and> transparency (effects neonGlow) = JSNumber 10 0 \<and>
   getColorCustomizations (applyTheme_config neonGlow (\<lambda>k. VUndefined)) ''terminal.background'' =
     Some (Some ''#0a0a0ae5'') \<and>
   getColorCustomizations
     (applyTheme_config (neonGlow\<lparr>effects := (effects neonGlow)\<lparr>transparency := JSNumber 0 0\<rparr>\<rparr>)
        (\<lambda>k. VUndefined)) ''terminal.background'' = Some (Some ''#0a0a0a'') \<and>
   getColorCustomizations
     (applyTheme_config (neonGlow\<lparr>effects := (effects neonGlow)\<lparr>transparency := JSNumber 100 0\<rparr>\<rparr>)
        (\<lambda>k. VUndefined)) ''terminal.background'' = Some (Some ''#0a0a0a00'') \<and>
   getColorCustomizations
     (applyTheme_config
        (neonGlow\<lparr>effects := (effects neonGlow)\<lparr>transparency := JSNumber 25 (- 1)\<rparr>\<rparr>)
        (\<lambda>k. VUndefined)) ''terminal.background'' = Some (Some ''#0a0a0adf'') \<and>
   alphaValue (transparency (effects neonGlow)) = 229"
proof -
  let ?cfg = "\<lambda>k. VUndefined"
  let ?opaque = "neonGlow\<lparr>effects := (effects neonGlow)\<lparr>transparency := JSNumber 0 0\<rparr>\<rparr>"
  let ?clear = "neonGlow\<lparr>effects := (effects neonGlow)\<lparr>transparency := JSNumber 100 0\<rparr>\<rparr>"
  let ?eighth = "neonGlow\<lparr>effects := (effects neonGlow)\<lparr>transparency := JSNumber 25 (- 1)\<rparr>\<rparr>"
  have v10: "val (transparency (effects neonGlow)) = 10"
    by (simp add: neonGlow_def val_def)
  have v0: "val (transparency (effects ?opaque)) = 0"
    by (simp add: val_def)
  have v100: "val (transparency (effects ?clear)) = 100"
    by (simp add: val_def)
  have v12: "val (transparency (effects ?eighth)) = 25 / 2"
    by (simp add: val_def power_int_minus_divide)
  have t10: "0 \<le> val (transparency (effects neonGlow))"
      "val (transparency (effects neonGlow)) \<le> 100"
    by (simp_all add: v10)
  have t0: "0 \<le> val (transparency (effects ?opaque))"
      "val (transparency (effects ?opaque)) \<le> 100"
    by (simp_all add: val_def power_int_minus_divide)
  have t100: "0 \<le> val (transparency (effects ?clear))"
      "val (transparency (effects ?clear)) \<le> 100"
    by (simp_all add: val_def power_int_minus_divide)
  have t12: "0 \<le> val (transparency (effects ?eighth))"
      "val (transparency (effects ?eighth)) \<le> 100"
    by (simp_all add: val_def power_int_minus_divide)
  have css: "hasCustomCss neonGlow" "hasCustomCss ?opaque" "hasCustomCss ?clear"
      "hasCustomCss ?eighth"
    by (simp_all add: neonGlow_def hasCustomCss_def)
  have bg: "background (colors neonGlow) = ''#0a0a0a''"
    by (simp add: neonGlow_def)
  have tr: "transparency (effects neonGlow) = JSNumber 10 0"
    by (simp add: neonGlow_def)
  have "getColorCustomizations (applyTheme_config neonGlow ?cfg) ''terminal.background'' =
          Some (Some ''#0a0a0ae5'')"
    using C1_transparency_alpha [OF t10, of ?cfg, unfolded Let_def, THEN conjunct2, THEN conjunct1]
    by (simp add: css bg tr val_def alphaSuffix_examples)
  moreover have "getColorCustomizations (applyTheme_config ?opaque ?cfg) ''terminal.background'' =
          Some (Some ''#0a0a0a'')"
    using C1_transparency_alpha [OF t0, of ?cfg, unfolded Let_def, THEN conjunct2, THEN conjunct1]
    by (simp add: bg val_def)
  moreover have "getColorCustomizations (applyTheme_config ?clear ?cfg) ''terminal.background'' =
          Some (Some ''#0a0a0a00'')"
    using C1_transparency_alpha [OF t100, of ?cfg, unfolded Let_def, THEN conjunct2, THEN conjunct1]
    by (simp add: css bg val_def alphaSuffix_examples)
  moreover have "getColorCustomizations (applyTheme_config ?eighth ?cfg) ''terminal.background'' =
          Some (Some ''#0a0a0adf'')"
    using C1_transparency_alpha [OF t12, of ?cfg, unfolded Let_def, THEN conjunct2, THEN conjunct1]
    by (simp add: css bg val_def power_int_minus_divide alphaSuffix_examples)
  moreover have "alphaValue (transparency (effects neonGlow)) = 229"
    using C1_transparency_alpha [OF t10, of ?cfg, unfolded Let_def, THEN conjunct2, THEN conjunct2,
        THEN conjunct2, THEN conjunct2, THEN conjunct2, THEN conjunct2, THEN conjunct2,
        THEN conjunct2, THEN conjunct2, THEN conjunct1, rule_format, of 10]
    by (simp add: tr val_def)
  moreover note css(1) tr
  ultimately show ?thesis by blast
qed

theorem C1_no_customCss_counterexample:
  "positive (transparency (effects neonGlowNoCss)) \<and>
   transparency (effects neonGlowNoCss) = JSNumber 10 0 \<and>
   background (colors neonGlowNoCss) = ''#0a0a0a'' \<and>
   getColorCustomizations (applyTheme_config neonGlowNoCss (\<lambda>k. VUndefined))
     ''terminal.background'' = Some (Some ''#0a0a0a'')"
  by (simp add: applyTheme_config_colors terminal_background_written neonGlowNoCss_def
      neonGlow_def hasCustomCss_def positive_def)

subsection \<open>The YAML dialect\<close>

text \<open>
  C3. The terminal-emulator YAML dialect is export-only. A file is imported only under
  the extensions .termistyle, .code-terminal-theme and .json: every other extension is
  rejected as an unsupported format whatever the file contains, and a file that parses as
  JSON other than null is imported exactly under those three. The exported text of any
  document begins with \<open>#\<close>, which no JSON text does, so importing it fails under every
  extension: as an invalid theme file or as invalid JSON under the three, as an unsupported
  format under any other. Encoding and decoding back therefore yields no document. The
  encoding itself carries the eighteen terminal colours and nothing else of the document
  but its name and description: two documents whose name, description and colours stay on
  their line and inside their quotes and that export to the same text have the same
  eighteen colours, and changing any other member leaves the text as it is.
\<close>

theorem C3_yaml_export_only:
  "(file_extension f \<notin> {''.termistyle'', ''.code-terminal-theme'', ''.json''} \<longrightarrow>
      importTheme grammar nowCreated nowModified f =
        Inl (UnsupportedFileFormat (file_extension f))) \<and>
   (JSON_parse grammar (file_content f) = Some j \<and> j \<noteq> JNull \<longrightarrow>
      (\<not> isl (importTheme grammar nowCreated nowModified f) \<longleftrightarrow>
         file_extension f \<in> {''.termistyle'', ''.code-terminal-theme'', ''.json''})) \<and>
   importTheme grammar nowCreated nowModified
     \<lparr>file_path = path, file_extension = extension, file_basename = base,
      file_content = exportToAlacritty theme\<rparr> =
     Inl (if extension = ''.termistyle'' \<or> extension = ''.code-terminal-theme''
          then InvalidTermiStyleFile
          else if extension = ''.json'' then InvalidJSONFile
          else UnsupportedFileFormat extension) \<and>
   (plainScalars theme \<and> plainScalars other \<and>
    exportToAlacritty other = exportToAlacritty theme \<longrightarrow>
      terminalColorFields other = terminalColorFields theme) \<and>
   exportToAlacritty
     (theme\<lparr>version := v, author := a, created := c, modified := m, font := fo, cursor := cu,
            colors := (colors theme)\<lparr>selection := s, selectionBackground := sb, border := bd,
                                     tab := tb\<rparr>,
            editorTheme := e, integration := i, effects := x\<rparr>) = exportToAlacritty theme"
proof -
  have unsupported:
    "file_extension f \<notin> {''.termistyle'', ''.code-terminal-theme'', ''.json''} \<longrightarrow>
       importTheme grammar nowCreated nowModified f =
         Inl (UnsupportedFileFormat (file_extension f))"
    by (auto intro: importTheme_unsupported)
  have accepted:
    "JSON_parse grammar (file_content f) = Some j \<and> j \<noteq> JNull \<longrightarrow>
       (\<not> isl (importTheme grammar nowCreated nowModified f) \<longleftrightarrow>
          file_extension f \<in> {''.termistyle'', ''.code-terminal-theme'', ''.json''})"
    using importTheme_accepts [of grammar f j nowCreated nowModified] by blast
  have exported:
    "importTheme grammar nowCreated nowModified
       \<lparr>file_path = path, file_extension = extension, file_basename = base,
        file_content = exportToAlacritty theme\<rparr> =
       Inl (if extension = ''.termistyle'' \<or> extension = ''.code-terminal-theme''
            then InvalidTermiStyleFile
            else if extension = ''.json'' then InvalidJSONFile
            else UnsupportedFileFormat extension)"
    using importTheme_exported
      [of "\<lparr>file_path = path, file_extension = extension, file_basename = base,
            file_content = exportToAlacritty theme\<rparr>" theme grammar nowCreated nowModified]
    by simp
  have determined:
    "plainScalars theme \<and> plainScalars other \<and>
     exportToAlacritty other = exportToAlacritty theme \<longrightarrow>
       terminalColorFields other = terminalColorFields theme"
  proof (intro impI, elim conjE)
    assume p: "plainScalars theme" "plainScalars other"
      and e: "exportToAlacritty other = exportToAlacritty theme"
    have "terminalColorFields other = quotedScalars (exportToAlacritty other)"
      using p(2) by (simp only: quotedScalars_exportToAlacritty)
    also have "\<dots> = quotedScalars (exportToAlacritty theme)"
      by (simp only: e)
    also have "\<dots> = terminalColorFields theme"
      using p(1) by (rule quotedScalars_exportToAlacritty)
    finally show "terminalColorFields other = terminalColorFields theme" .
  qed
  have independent:
    "exportToAlacritty
       (theme\<lparr>version := v, author := a, created := c, modified := m, font := fo, cursor := cu,
              colors := (colors theme)\<lparr>selection := s, selectionBackground := sb, border := bd,
                                       tab := tb\<rparr>,
              editorTheme := e, integration := i, effects := x\<rparr>) = exportToAlacritty theme"
    by (simp add: exportToAlacritty_def Let_def)
  from unsupported accepted exported determined independent show ?thesis
    by (intro conjI)
qed

theorem C3_yaml_export_only_witness:
  "importTheme lenientGrammar ''2024-11-16T08:00:00.000Z'' ''2024-11-16T08:00:00.000Z''
     \<lparr>file_path = ''neon-glow.yml'', file_extension = ''.yml'',
      file_basename = ''neon-glow.yml'', file_content = ''{}''\<rparr> =
     Inl (UnsupportedFileFormat ''.yml'') \<and>
   \<not> isl (importTheme lenientGrammar ''2024-11-16T08:00:00.000Z'' ''2024-11-16T08:00:00.000Z''
     \<lparr>file_path = ''neon-glow.json'', file_extension = ''.json'',
      file_basename = ''neon-glow'', file_content = ''{}''\<rparr>) \<and>
   importTheme lenientGrammar ''2024-11-16T08:00:00.000Z'' ''2024-11-16T08:00:00.000Z''
     \<lparr>file_path = ''neon-glow.json'', file_extension = ''.json'',
      file_basename = ''neon-glow'', file_content = exportToAlacritty neonGlow\<rparr> =
     Inl InvalidJSONFile \<and>
   plainScalars neonGlow \<and> plainScalars neonGlowNoCss \<and>
   exportToAlacritty neonGlowNoCss = exportToAlacritty neonGlow \<and>
   terminalColorFields neonGlowNoCss = terminalColorFields neonGlow"
proof -
  let ?yml = "\<lparr>file_path = ''neon-glow.yml'', file_extension = ''.yml'',
      file_basename = ''neon-glow.yml'', file_content = ''{}''\<rparr>"
  let ?json = "\<lparr>file_path = ''neon-glow.json'', file_extension = ''.json'',
      file_basename = ''neon-glow'', file_content = ''{}''\<rparr>"
  let ?now = "''2024-11-16T08:00:00.000Z''"
  have ext: "file_extension ?yml \<notin> {''.termistyle'', ''.code-terminal-theme'', ''.json''}"
    by simp
  have parsed: "JSON_parse lenientGrammar (file_content ?json) = Some (JObject []) \<and>
      JObject [] \<noteq> JNull"
    by (simp add: JSON_parse_def lenientGrammar_def jsonWhitespace_def startsJsonValue_def)
  have plain: "plainScalars neonGlow" "plainScalars neonGlowNoCss"
    by (simp_all add: plainScalars_def terminalColorFields_def neonGlowNoCss_def neonGlow_def
        stringOr_def)
  have same: "exportToAlacritty neonGlowNoCss = exportToAlacritty neonGlow"
    by (simp add: exportToAlacritty_def neonGlowNoCss_def)
  have "importTheme lenientGrammar ?now ?now ?yml = Inl (UnsupportedFileFormat ''.yml'')"
    using C3_yaml_export_only [where f = ?yml and grammar = lenientGrammar and nowCreated = ?now
        and nowModified = ?now, THEN conjunct1] ext
    by simp
  moreover have "\<not> isl (importTheme lenientGrammar ?now ?now ?json)"
    using C3_yaml_export_only [where f = ?json and grammar = lenientGrammar and nowCreated = ?now
        and nowModified = ?now and j = "JObject []", THEN conjunct2, THEN conjunct1] parsed
    by simp
  moreover have "importTheme lenientGrammar ?now ?now
     \<lparr>file_path = ''neon-glow.json'', file_extension = ''.json'',
      file_basename = ''neon-glow'', file_content = exportToAlacritty neonGlow\<rparr> =
     Inl InvalidJSONFile"
    using C3_yaml_export_only [where grammar = lenientGrammar and nowCreated = ?now
        and nowModified = ?now and path = "''neon-glow.json''" and extension = "''.json''"
        and base = "''neon-glow''" and theme = neonGlow,
        THEN conjunct2, THEN conjunct2, THEN conjunct1]
    by simp
  moreover have "terminalColorFields neonGlowNoCss = terminalColorFields neonGlow"
    using C3_yaml_export_only [where theme = neonGlow and other = neonGlowNoCss,
        THEN conjunct2, THEN conjunct2, THEN conjunct2, THEN conjunct1] plain same
    by blast
  ultimately show ?thesis using plain same by blast
qed

theorem C3_yaml_round_trip_counterexample:
  "take 13 (exportToAlacritty neonGlow) = ''# Neon Glow -'' \<and>
   importTheme lenientGrammar ''2024-11-16T08:00:00.000Z'' ''2024-11-16T08:00:00.000Z''
     \<lparr>file_path = ''neon-glow.yml'', file_extension = ''.yml'',
      file_basename = ''neon-glow.yml'', file_content = exportToAlacritty neonGlow\<rparr> =
     Inl (UnsupportedFileFormat ''.yml'') \<and>
   importTheme lenientGrammar ''2024-11-16T08:00:00.000Z'' ''2024-11-16T08:00:00.000Z''
     \<lparr>file_path = ''neon-glow.termistyle'', file_extension = ''.termistyle'',
      file_basename = ''neon-glow.termistyle'', file_content = exportToAlacritty neonGlow\<rparr> =
     Inl InvalidTermiStyleFile"
  by (simp add: importTheme_def importFromTermiStyle_def exportToAlacritty_def neonGlow_def
      JSON_parse_def jsonWhitespace_def startsJsonValue_def)

end
